theory Spec2Isabelle
  imports Main "HOL-Library.Multiset"
begin

section \<open>Strings as the client uses them\<close>

text \<open>
  A string is a list of characters (code units). The helpers below are the
  library calls the source makes on strings: \<^verbatim>\<open>split('\n')\<close>,
  \<^verbatim>\<open>join('\n')\<close>, \<^verbatim>\<open>trim()\<close> and \<^verbatim>\<open>startsWith\<close>.
\<close>

definition newline :: char where
  "newline = CHR 0x0A"

text \<open>\<^verbatim>\<open>s.split('\n')\<close>: always at least one piece; the empty string gives one empty piece.\<close>

fun split_nl :: "string \<Rightarrow> string list" where
  "split_nl [] = [[]]"
| "split_nl (c # cs) =
     (if c = newline then [] # split_nl cs
      else (case split_nl cs of
              [] \<Rightarrow> [[c]]
            | l # ls \<Rightarrow> (c # l) # ls))"

text \<open>\<^verbatim>\<open>lines.join('\n')\<close>.\<close>

fun join_nl :: "string list \<Rightarrow> string" where
  "join_nl [] = []"
| "join_nl [l] = l"
| "join_nl (l # l' # ls) = l @ newline # join_nl (l' # ls)"

text \<open>
  The white space that \<^verbatim>\<open>trim()\<close> strips, for code units below 256: tab, line
  feed, vertical tab, form feed, carriage return, space and no-break space.
\<close>

definition isWhitespace :: "char \<Rightarrow> bool" where
  "isWhitespace c \<longleftrightarrow>
     c \<in> set [CHR 0x09, CHR 0x0A, CHR 0x0B, CHR 0x0C, CHR 0x0D, CHR 0x20, CHR 0xA0]"

definition trim :: "string \<Rightarrow> string" where
  "trim s = rev (dropWhile isWhitespace (rev (dropWhile isWhitespace s)))"

definition startsWith :: "string \<Rightarrow> string \<Rightarrow> bool" where
  "startsWith s p \<longleftrightarrow> take (length p) s = p"

section \<open>Webhook client: deduplication of text content\<close>

text \<open>
  The loop of \<^verbatim>\<open>deduplicateContent\<close>: \<open>seen\<close> is the set \<^verbatim>\<open>seenLines\<close> (kept as a
  list), \<open>out\<close> is \<^verbatim>\<open>deduplicatedLines\<close>. A line whose trimmed form is empty is
  pushed without a look at \<open>seen\<close>; any other line is pushed, and its trimmed
  form recorded, only when the trimmed form has not been recorded before.
\<close>

fun dedupLoop :: "string list \<Rightarrow> string list \<Rightarrow> string list \<Rightarrow> string list \<times> string list" where
  "dedupLoop [] seen out = (seen, out)"
| "dedupLoop (line # rest) seen out =
     (let trimmedLine = trim line in
      if trimmedLine = [] then dedupLoop rest seen (out @ [line])
      else if trimmedLine \<notin> set seen then dedupLoop rest (trimmedLine # seen) (out @ [line])
      else dedupLoop rest seen out)"

definition deduplicateString :: "string \<Rightarrow> string" where
  "deduplicateString content = join_nl (snd (dedupLoop (split_nl content) [] []))"

text \<open>
  The reading of the deduplication rule that compares whole lines: a line is
  dropped exactly when it is not blank and an identical line came before it.
\<close>

fun dropIdenticalLines :: "string list \<Rightarrow> string list \<Rightarrow> string list" where
  "dropIdenticalLines seen [] = []"
| "dropIdenticalLines seen (line # rest) =
     (if trim line = [] then line # dropIdenticalLines seen rest
      else if line \<in> set seen then dropIdenticalLines seen rest
      else line # dropIdenticalLines (line # seen) rest)"

definition dedupIdentical :: "string \<Rightarrow> string" where
  "dedupIdentical content = join_nl (dropIdenticalLines [] (split_nl content))"

text \<open>
  Which positions of a list of lines survive: the blank ones, and the first
  occurrence of each trimmed form.
\<close>

definition keptAt :: "string list \<Rightarrow> nat \<Rightarrow> bool" where
  "keptAt ls i \<longleftrightarrow> trim (ls ! i) = [] \<or> trim (ls ! i) \<notin> set (map trim (take i ls))"

definition keptLines :: "string list \<Rightarrow> string list" where
  "keptLines ls = map (\<lambda>i. ls ! i) (filter (keptAt ls) [0..<length ls])"

section \<open>JavaScript values\<close>

text \<open>
  The values the client handles are decoded JSON bodies, plus \<^verbatim>\<open>undefined\<close>, which
  a missing property reads as, plus \<^verbatim>\<open>Date\<close> objects, which the client makes
  itself for its time stamps (a date is the number of milliseconds it
  denotes). An object is the list of its own properties in the order
  \<^verbatim>\<open>Object.keys\<close> reports them, the keys distinct. The number type is a
  parameter: the code never computes with a payload number, it only tests and
  prints it.
\<close>

datatype 'n jsval =
    JUndefined
  | JNull
  | JBool bool
  | JNum 'n
  | JStr string
  | JArr "'n jsval list"
  | JObj "(string \<times> 'n jsval) list"
  | JDate int

text \<open>
  What the JavaScript platform supplies and the repository does not define:
  which numbers are falsy (zero), which are greater than zero, how a number
  prints, whether a string converts to a number greater than zero,
  \<^verbatim>\<open>JSON.parse\<close> (\<open>None\<close> when it throws), \<^verbatim>\<open>String.prototype.localeCompare\<close>,
  and how a date prints: with \<^verbatim>\<open>String\<close>, and with \<^verbatim>\<open>toISOString\<close>, which is what
  \<^verbatim>\<open>JSON.stringify\<close> writes for it.
\<close>

record 'n platform =
  num_falsy :: "'n \<Rightarrow> bool"
  num_positive :: "'n \<Rightarrow> bool"
  num_toString :: "'n \<Rightarrow> string"
  string_positive :: "string \<Rightarrow> bool"
  json_parse :: "string \<Rightarrow> 'n jsval option"
  locale_compare :: "string \<Rightarrow> string \<Rightarrow> int"
  date_toString :: "int \<Rightarrow> string"
  date_toISOString :: "int \<Rightarrow> string"

text \<open>Truthiness: what \<^verbatim>\<open>!v\<close>, \<^verbatim>\<open>a || b\<close> and \<^verbatim>\<open>a && b\<close> look at.\<close>

fun truthy :: "'n platform \<Rightarrow> 'n jsval \<Rightarrow> bool" where
  "truthy P JUndefined = False"
| "truthy P JNull = False"
| "truthy P (JBool b) = b"
| "truthy P (JNum n) = (\<not> num_falsy P n)"
| "truthy P (JStr s) = (s \<noteq> [])"
| "truthy P (JArr xs) = True"
| "truthy P (JObj kvs) = True"
| "truthy P (JDate t) = True"

definition jsOr :: "'n platform \<Rightarrow> 'n jsval \<Rightarrow> 'n jsval \<Rightarrow> 'n jsval" where
  "jsOr P a b = (if truthy P a then a else b)"

text \<open>\<^verbatim>\<open>typeof v === 'object'\<close> holds of null, arrays, objects and dates.\<close>

fun typeofObject :: "'n jsval \<Rightarrow> bool" where
  "typeofObject JNull = True"
| "typeofObject (JArr xs) = True"
| "typeofObject (JObj kvs) = True"
| "typeofObject (JDate t) = True"
| "typeofObject v = False"

fun typeofString :: "'n jsval \<Rightarrow> bool" where
  "typeofString (JStr s) = True"
| "typeofString v = False"

fun isArray :: "'n jsval \<Rightarrow> bool" where
  "isArray (JArr xs) = True"
| "isArray v = False"

text \<open>
  Reading a named property \<^verbatim>\<open>v.k\<close> of a value that is neither null nor
  undefined. The names the code reads this way (\<^verbatim>\<open>content\<close>, \<^verbatim>\<open>type\<close>, \<^verbatim>\<open>datasets\<close>,
  \<^verbatim>\<open>x\<close>, ...) are no built-in property of arrays, strings, numbers or booleans,
  so only an object can have them.
\<close>

fun getProp :: "'n jsval \<Rightarrow> string \<Rightarrow> 'n jsval" where
  "getProp (JObj kvs) k = (case map_of kvs k of Some v \<Rightarrow> v | None \<Rightarrow> JUndefined)"
| "getProp v k = JUndefined"

text \<open>Decimal digits of a natural number, as array indices print.\<close>

function showNat :: "nat \<Rightarrow> string" where
  "showNat n =
     (if n < 10 then [char_of (48 + n)]
      else showNat (n div 10) @ [char_of (48 + n mod 10)])"
  by pat_completeness auto
termination
  by (relation "measure id") auto

text \<open>\<^verbatim>\<open>Object.keys(v)\<close>: the own keys of an object, the indices of an array or string.\<close>

fun objectKeys :: "'n jsval \<Rightarrow> string list" where
  "objectKeys (JObj kvs) = map fst kvs"
| "objectKeys (JArr xs) = map showNat [0..<length xs]"
| "objectKeys (JStr s) = map showNat [0..<length s]"
| "objectKeys v = []"

fun join_comma :: "string list \<Rightarrow> string" where
  "join_comma [] = []"
| "join_comma [l] = l"
| "join_comma (l # l' # ls) = l @ CHR '','' # join_comma (l' # ls)"

text \<open>
  \<^verbatim>\<open>String(v)\<close>, also the conversion of a computed property key. An array prints
  its elements joined by commas, null and undefined elements as nothing.
\<close>

fun toStr :: "'n platform \<Rightarrow> 'n jsval \<Rightarrow> string" where
  "toStr P JUndefined = ''undefined''"
| "toStr P JNull = ''null''"
| "toStr P (JBool b) = (if b then ''true'' else ''false'')"
| "toStr P (JNum n) = num_toString P n"
| "toStr P (JStr s) = s"
| "toStr P (JArr xs) =
     join_comma (map (\<lambda>x. if x = JUndefined \<or> x = JNull then [] else toStr P x) xs)"
| "toStr P (JObj kvs) = ''[object Object]''"
| "toStr P (JDate t) = date_toString P t"

section \<open>Webhook client: the response normalizer\<close>

text \<open>
  \<^verbatim>\<open>deduplicateContent\<close> is handed whatever the content is and returns anything
  that is not a string unchanged.
\<close>

fun deduplicateContent :: "'n jsval \<Rightarrow> 'n jsval" where
  "deduplicateContent (JStr s) = JStr (deduplicateString s)"
| "deduplicateContent v = v"

text \<open>\<^verbatim>\<open>isMixedContent\<close>: an array with an element that is an object having a key that starts with \<^verbatim>\<open>text\<close> or \<^verbatim>\<open>chart\<close>.\<close>

definition hasTextOrChartKey :: "'n jsval \<Rightarrow> bool" where
  "hasTextOrChartKey item \<longleftrightarrow>
     (let keys = objectKeys item;
          hasText = list_ex (\<lambda>key. startsWith key ''text'') keys;
          hasChart = list_ex (\<lambda>key. startsWith key ''chart'') keys
      in hasText \<or> hasChart)"

fun isMixedContent :: "'n platform \<Rightarrow> 'n jsval \<Rightarrow> bool" where
  "isMixedContent P (JArr items) =
     list_ex (\<lambda>item. if \<not> truthy P item \<or> \<not> typeofObject item then False
                      else hasTextOrChartKey item) items"
| "isMixedContent P v = False"

text \<open>
  The metadata of a normalized response: the upstream metadata passed through,
  or a fresh record holding the current time, in the general path together
  with the source tag \<^verbatim>\<open>n8n-webhook\<close> and the original body.
\<close>

datatype 'n response_metadata =
    Upstream "'n jsval"
  | Stamp int
  | StampWebhook int "'n jsval"

record 'n n8n_response =
  r_type :: "'n jsval"
  r_messageType :: "'n jsval"
  r_content :: "'n jsval"
  r_metadata :: "'n response_metadata"

definition messageTypes :: "string list" where
  "messageTypes = [''text'', ''json'', ''image'', ''chart'', ''error'', ''mixed'']"

definition responseTypes :: "string list" where
  "responseTypes = [''interim'', ''final'']"

text \<open>\<^verbatim>\<open>list.includes(v)\<close> for a list of strings: only an equal string is included.\<close>

fun includesStr :: "string list \<Rightarrow> 'n jsval \<Rightarrow> bool" where
  "includesStr l (JStr s) = (s \<in> set l)"
| "includesStr l v = False"

text \<open>
  The test \<^verbatim>\<open>data.type && data.messageType && data.content !== undefined\<close> on an
  object body: the body is taken to have the expected format already.
\<close>

definition hasExpectedFormat :: "'n platform \<Rightarrow> 'n jsval \<Rightarrow> bool" where
  "hasExpectedFormat P data \<longleftrightarrow>
     truthy P data \<and> typeofObject data \<and>
     truthy P (getProp data ''type'') \<and> truthy P (getProp data ''messageType'') \<and>
     getProp data ''content'' \<noteq> JUndefined"

text \<open>
  The special handling of an \<^verbatim>\<open>output\<close> field that holds a string: when the
  string parses to an object, content, messageType and type are taken from it
  where it has them; when parsing throws, nothing changes.
\<close>

definition fromOutput ::
  "'n platform \<Rightarrow> 'n jsval \<Rightarrow> 'n jsval \<times> 'n jsval \<times> 'n jsval \<Rightarrow> 'n jsval \<times> 'n jsval \<times> 'n jsval" where
  "fromOutput P data cmt =
     (case cmt of (content, messageType, type) \<Rightarrow>
        (case getProp data ''output'' of
           JStr s \<Rightarrow>
             (if s = [] then cmt
              else (case json_parse P s of
                      None \<Rightarrow> cmt
                    | Some parsedOutput \<Rightarrow>
                        if truthy P parsedOutput \<and> typeofObject parsedOutput
                        then (jsOr P (getProp parsedOutput ''content'') parsedOutput,
                              jsOr P (getProp parsedOutput ''messageType'') messageType,
                              jsOr P (getProp parsedOutput ''type'') type)
                        else cmt))
         | _ \<Rightarrow> cmt))"

definition validateResponse :: "'n platform \<Rightarrow> int \<Rightarrow> 'n jsval \<Rightarrow> 'n n8n_response" where
  "validateResponse P now data =
     (if \<not> truthy P data \<or> \<not> typeofObject data then
        \<lparr> r_type = JStr ''final'', r_messageType = JStr ''text'',
          r_content = JStr (toStr P data), r_metadata = Stamp now \<rparr>
      else if truthy P (getProp data ''type'') \<and> truthy P (getProp data ''messageType'')
              \<and> getProp data ''content'' \<noteq> JUndefined then
        \<lparr> r_type = getProp data ''type'',
          r_messageType = getProp data ''messageType'',
          r_content = (if getProp data ''messageType'' = JStr ''text''
                       then deduplicateContent (getProp data ''content'')
                       else getProp data ''content''),
          r_metadata = (if truthy P (getProp data ''metadata'')
                        then Upstream (getProp data ''metadata'') else Stamp now) \<rparr>
      else
        (let content0 = jsOr P (getProp data ''content'')
                         (jsOr P (getProp data ''message'')
                           (jsOr P (getProp data ''response'')
                             (jsOr P (getProp data ''text'')
                               (jsOr P (getProp data ''output'') data))));
             messageType0 = jsOr P (getProp data ''messageType'')
                              (jsOr P (getProp data ''format'') (JStr ''text''));
             type0 = jsOr P (getProp data ''type'') (JStr ''final'')
         in case fromOutput P data (content0, messageType0, type0) of
              (content, messageType1, type1) \<Rightarrow>
                (let messageType2 = (if isMixedContent P content then JStr ''mixed''
                                     else if isArray content then JStr ''json''
                                     else messageType1);
                     messageType = (if \<not> includesStr messageTypes messageType2
                                    then JStr ''text'' else messageType2);
                     type = (if \<not> includesStr responseTypes type1
                             then JStr ''final'' else type1)
                 in \<lparr> r_type = type, r_messageType = messageType,
                      r_content = (if messageType = JStr ''text''
                                   then deduplicateContent content else content),
                      r_metadata = (if truthy P (getProp data ''metadata'')
                                    then Upstream (getProp data ''metadata'')
                                    else StampWebhook now data) \<rparr>)))"

section \<open>A platform to run the model on\<close>

text \<open>
  A concrete platform for evaluating the model on examples: numbers are
  integers, \<^verbatim>\<open>JSON.parse\<close> is a table of the texts it accepts, strings compare by
  code unit, a string counts as a positive number when it is a run of decimal
  digits that are not all zero, and a date prints in ISO form both ways (a
  browser's \<^verbatim>\<open>String\<close> prints it in the form of its locale).
\<close>

definition showInt :: "int \<Rightarrow> string" where
  "showInt i = (if i < 0 then CHR ''-'' # showNat (nat (- i)) else showNat (nat i))"

fun compareCodeUnits :: "string \<Rightarrow> string \<Rightarrow> int" where
  "compareCodeUnits [] [] = 0"
| "compareCodeUnits [] (y # ys) = - 1"
| "compareCodeUnits (x # xs) [] = 1"
| "compareCodeUnits (x # xs) (y # ys) =
     (if (of_char x :: nat) < of_char y then - 1
      else if (of_char y :: nat) < of_char x then 1
      else compareCodeUnits xs ys)"

definition isDigit :: "char \<Rightarrow> bool" where
  "isDigit c \<longleftrightarrow> (48::nat) \<le> of_char c \<and> (of_char c :: nat) \<le> 57"

text \<open>
  \<^verbatim>\<open>toISOString\<close>: the civil date of a day count, then
  \<^verbatim>\<open>YYYY-MM-DDTHH:mm:ss.sssZ\<close>, the year with sign and six digits outside 0 to
  9999.
\<close>

definition padZero :: "nat \<Rightarrow> nat \<Rightarrow> string" where
  "padZero w n = replicate (w - length (showNat n)) (CHR ''0'') @ showNat n"

definition civilFromDays :: "int \<Rightarrow> int \<times> int \<times> int" where
  "civilFromDays days =
     (let z = days + 719468;
          era = z div 146097;
          doe = z mod 146097;
          yoe = (doe - doe div 1460 + doe div 36524 - doe div 146096) div 365;
          y = yoe + era * 400;
          doy = doe - (365 * yoe + yoe div 4 - yoe div 100);
          mp = (5 * doy + 2) div 153;
          d = doy - (153 * mp + 2) div 5 + 1;
          m = (if mp < 10 then mp + 3 else mp - 9)
      in (if m \<le> 2 then y + 1 else y, m, d))"

definition isoString :: "int \<Rightarrow> string" where
  "isoString t =
     (let ms = t mod 86400000 in
      case civilFromDays (t div 86400000) of
        (y, m, d) \<Rightarrow>
          (if 0 \<le> y \<and> y \<le> 9999 then padZero 4 (nat y)
           else (if y < 0 then ''-'' else ''+'') @ padZero 6 (nat \<bar>y\<bar>))
          @ ''-'' @ padZero 2 (nat m) @ ''-'' @ padZero 2 (nat d)
          @ ''T'' @ padZero 2 (nat (ms div 3600000))
          @ '':'' @ padZero 2 (nat (ms mod 3600000 div 60000))
          @ '':'' @ padZero 2 (nat (ms mod 60000 div 1000))
          @ ''.'' @ padZero 3 (nat (ms mod 1000)) @ ''Z'')"

definition samplePlatform :: "(string \<times> int jsval) list \<Rightarrow> int platform" where
  "samplePlatform parses =
     \<lparr> num_falsy = (\<lambda>n. n = 0),
       num_positive = (\<lambda>n. 0 < n),
       num_toString = showInt,
       string_positive = (\<lambda>s. s \<noteq> [] \<and> list_all isDigit s \<and> list_ex (\<lambda>c. c \<noteq> CHR ''0'') s),
       json_parse = map_of parses,
       locale_compare = compareCodeUnits,
       date_toString = isoString,
       date_toISOString = isoString \<rparr>"

section \<open>Webhook client: sending and retrying\<close>

text \<open>
  The four kinds of \<^verbatim>\<open>N8NError\<close>, and what a \<^verbatim>\<open>throw\<close> in the client can carry:
  an \<^verbatim>\<open>N8NError\<close> with its message, kind and details, or another \<^verbatim>\<open>Error\<close> with
  its name and message (what \<^verbatim>\<open>fetch\<close> rejects with).
\<close>

datatype n8n_error_kind = Network | Timeout | Server | Validation

record js_error =
  e_name :: string
  e_message :: string

datatype thrown =
    ThrownN8N string n8n_error_kind error_details
  | ThrownError js_error
and error_details =
    NoDetails
  | ServerDetails nat string string
  | Cause thrown

record n8n_config_input =
  in_webhookUrl :: string
  in_streamingUrl :: string
  in_timeout :: "int option"
  in_retryAttempts :: "int option"
  in_retryDelay :: "int option"

record n8n_config =
  webhookUrl :: string
  streamingUrl :: string
  timeout :: int
  retryAttempts :: int
  retryDelay :: int

text \<open>The constructor: the defaults, overridden by what the caller configures.\<close>

definition newN8NClient :: "n8n_config_input \<Rightarrow> n8n_config" where
  "newN8NClient c =
     \<lparr> webhookUrl = in_webhookUrl c,
       streamingUrl = in_streamingUrl c,
       timeout = (case in_timeout c of Some t \<Rightarrow> t | None \<Rightarrow> 120000),
       retryAttempts = (case in_retryAttempts c of Some n \<Rightarrow> n | None \<Rightarrow> 3),
       retryDelay = (case in_retryDelay c of Some d \<Rightarrow> d | None \<Rightarrow> 1000) \<rparr>"

text \<open>
  One HTTP exchange as the network plays it: the server answers after some
  milliseconds, the transport fails after some milliseconds, or nothing ever
  comes back.
\<close>

record http_response =
  status :: nat
  statusText :: string
  body :: string

datatype exchange =
    Responds int http_response
  | Rejects int js_error
  | Hangs

text \<open>
  \<^verbatim>\<open>fetch\<close> with the \<^verbatim>\<open>signal\<close> option it is given: without a signal the call
  settles when the exchange does, and never if the exchange hangs; with
  \<^verbatim>\<open>AbortSignal.timeout(t)\<close> it rejects with a \<^verbatim>\<open>TimeoutError\<close> unless the exchange
  settles before \<open>t\<close> milliseconds. \<open>None\<close> is a promise that never settles.
\<close>

definition timeoutError :: js_error where
  "timeoutError = \<lparr> e_name = ''TimeoutError'', e_message = ''signal timed out'' \<rparr>"

fun fetch :: "int option \<Rightarrow> exchange \<Rightarrow> (js_error + http_response) option" where
  "fetch None (Responds ms r) = Some (Inr r)"
| "fetch None (Rejects ms e) = Some (Inl e)"
| "fetch None Hangs = None"
| "fetch (Some t) (Responds ms r) = (if ms < t then Some (Inr r) else Some (Inl timeoutError))"
| "fetch (Some t) (Rejects ms e) = (if ms < t then Some (Inl e) else Some (Inl timeoutError))"
| "fetch (Some t) Hangs = Some (Inl timeoutError)"

definition response_ok :: "http_response \<Rightarrow> bool" where
  "response_ok r \<longleftrightarrow> 200 \<le> status r \<and> status r \<le> 299"

text \<open>\<^verbatim>\<open>s.includes(p)\<close> on strings.\<close>

fun strIncludes :: "string \<Rightarrow> string \<Rightarrow> bool" where
  "strIncludes [] p = (p = [])"
| "strIncludes (c # cs) p = (startsWith (c # cs) p \<or> strIncludes cs p)"

text \<open>
  The \<^verbatim>\<open>catch\<close> block of \<^verbatim>\<open>sendMessage\<close>. Everything thrown in the \<^verbatim>\<open>try\<close> passes
  through it, the client's own server error included: a name of
  \<^verbatim>\<open>TimeoutError\<close> or \<^verbatim>\<open>AbortError\<close> becomes a timeout error, a message that
  contains \<^verbatim>\<open>fetch\<close> or \<^verbatim>\<open>network\<close> becomes a network error, anything else is
  thrown on as it is.
\<close>

fun thrownName :: "thrown \<Rightarrow> string" where
  "thrownName (ThrownN8N msg kind details) = ''N8NError''"
| "thrownName (ThrownError e) = e_name e"

fun thrownMessage :: "thrown \<Rightarrow> string" where
  "thrownMessage (ThrownN8N msg kind details) = msg"
| "thrownMessage (ThrownError e) = e_message e"

definition sendMessageCatch :: "thrown \<Rightarrow> thrown" where
  "sendMessageCatch error =
     (if thrownName error = ''TimeoutError'' \<or> thrownName error = ''AbortError''
      then ThrownN8N ''Request timeout'' Timeout NoDetails
      else if strIncludes (thrownMessage error) ''fetch''
              \<or> strIncludes (thrownMessage error) ''network''
      then ThrownN8N ''Network error'' Network (Cause error)
      else error)"

text \<open>
  \<^verbatim>\<open>sendMessage\<close>. The configured timeout is read out of the configuration and
  not used: the call to \<^verbatim>\<open>fetch\<close> carries method, headers and body, and no
  signal. The result is \<open>None\<close> when the returned promise never settles.
\<close>

definition sendMessage ::
  "'n platform \<Rightarrow> n8n_config \<Rightarrow> int \<Rightarrow> exchange \<Rightarrow> (thrown + 'n n8n_response) option" where
  "sendMessage P config now ex =
     (case fetch None ex of
        None \<Rightarrow> None
      | Some (Inl e) \<Rightarrow> Some (Inl (sendMessageCatch (ThrownError e)))
      | Some (Inr response) \<Rightarrow>
          if \<not> response_ok response then
            Some (Inl (sendMessageCatch
              (ThrownN8N (''HTTP '' @ showNat (status response) @ '': '' @ statusText response)
                 Server
                 (ServerDetails (status response) (statusText response) (body response)))))
          else
            (let responseText = body response;
                 data = (case json_parse P responseText of
                           Some v \<Rightarrow> v
                         | None \<Rightarrow> JStr responseText)
             in Some (Inr (validateResponse P now data))))"

text \<open>
  \<^verbatim>\<open>sendMessageWithRetry\<close>. \<open>send k\<close> is how the \<open>k\<close>-th call of \<^verbatim>\<open>sendMessage\<close>
  ends. The trace records the calls made and the delays waited, in order.
\<close>

datatype retry_event = Call int | Wait int

fun retryable :: "(thrown + 'a) option \<Rightarrow> bool" where
  "retryable (Some (Inl (ThrownN8N msg kind details))) = (kind \<noteq> Validation)"
| "retryable r = False"

function retryLoop ::
  "n8n_config \<Rightarrow> (int \<Rightarrow> (thrown + 'a) option) \<Rightarrow> int \<Rightarrow> retry_event list
     \<Rightarrow> (thrown + 'a) option \<times> retry_event list" where
  "retryLoop config send attempt trace =
     (if attempt \<le> retryAttempts config then
        (case send attempt of
           None \<Rightarrow> (None, trace @ [Call attempt])
         | Some (Inr response) \<Rightarrow> (Some (Inr response), trace @ [Call attempt])
         | Some (Inl (ThrownN8N msg kind details)) \<Rightarrow>
             if kind = Validation then
               (Some (Inl (ThrownN8N msg kind details)), trace @ [Call attempt])
             else if attempt = retryAttempts config then
               (Some (Inl (ThrownN8N msg kind details)), trace @ [Call attempt])
             else
               retryLoop config send (attempt + 1)
                 (trace @ [Call attempt, Wait (retryDelay config * attempt)])
         | Some (Inl (ThrownError e)) \<Rightarrow> (Some (Inl (ThrownError e)), trace @ [Call attempt]))
      else (Some (Inl (ThrownN8N ''Max retry attempts reached'' Network NoDetails)), trace))"
  by pat_completeness auto
termination
  by (relation "measure (\<lambda>(config, send, attempt, trace). nat (retryAttempts config + 1 - attempt))")
     auto

declare retryLoop.simps [simp del]

definition sendMessageWithRetry ::
  "n8n_config \<Rightarrow> (int \<Rightarrow> (thrown + 'a) option) \<Rightarrow> (thrown + 'a) option \<times> retry_event list" where
  "sendMessageWithRetry config send = retryLoop config send 1 []"

text \<open>The calls and waits of a run that makes \<open>k\<close> calls with base delay \<open>d\<close>.\<close>

definition retryTrace :: "int \<Rightarrow> int \<Rightarrow> retry_event list" where
  "retryTrace d k = concat (map (\<lambda>i. [Call i, Wait (d * i)]) [1..k - 1]) @ [Call k]"

section \<open>Sorting with a comparator\<close>

text \<open>
  \<^verbatim>\<open>Array.prototype.sort(cmp)\<close>, as a stable insertion sort: each element in turn
  is moved left past the elements that compare greater than it. The sorted
  prefix is kept reversed, so that its last element is at the head.
\<close>

fun insertRev :: "('a \<Rightarrow> 'a \<Rightarrow> int) \<Rightarrow> 'a \<Rightarrow> 'a list \<Rightarrow> 'a list" where
  "insertRev cmp x [] = [x]"
| "insertRev cmp x (y # ys) =
     (if cmp y x > 0 then y # insertRev cmp x ys else x # y # ys)"

definition jsSort :: "('a \<Rightarrow> 'a \<Rightarrow> int) \<Rightarrow> 'a list \<Rightarrow> 'a list" where
  "jsSort cmp xs = rev (foldl (\<lambda>acc x. insertRev cmp x acc) [] xs)"

section \<open>Persistence client: the local-storage store\<close>

text \<open>
  Messages as the application holds them, the flat records the store keeps,
  and the store itself: the two lists kept under the keys \<^verbatim>\<open>chat-sessions\<close> and
  \<^verbatim>\<open>chat-messages\<close>. A time is the number of milliseconds it denotes; its ISO
  string in a stored record is kept as that number. A missing content or
  metadata is \<open>JUndefined\<close>. The store also says what the browser decides:
  whether there is a \<^verbatim>\<open>window\<close> at all, and which values \<^verbatim>\<open>localStorage.setItem\<close>
  accepts under each key (it throws when the quota is exceeded).
\<close>

datatype message_type = User | Assistant | Interim

datatype response_type = RText | RJson | RImage | RChart | RError | RMixed

record 'n response_data =
  rd_type :: response_type
  rd_content :: "'n jsval"
  rd_metadata :: "'n jsval"

record 'n message =
  m_id :: string
  m_sessionId :: string
  m_content :: string
  m_type :: message_type
  m_timestamp :: int
  m_responseData :: "'n response_data option"

record 'n new_message =
  nm_sessionId :: string
  nm_content :: string
  nm_type :: message_type
  nm_timestamp :: int
  nm_responseData :: "'n response_data option"

record 'n message_updates =
  u_content :: "string option"
  u_responseData :: "'n response_data option"

record 'n mockapi_message =
  sm_id :: string
  sm_sessionId :: string
  sm_content :: string
  sm_type :: message_type
  sm_timestamp :: int
  sm_responseType :: "response_type option"
  sm_responseContent :: "'n jsval"
  sm_responseMetadata :: "'n jsval"

record mockapi_session =
  ss_id :: string
  ss_name :: string
  ss_createdAt :: int
  ss_updatedAt :: int
  ss_messageCount :: int
  ss_lastActivity :: int
  ss_isActive :: bool

record 'n storage =
  window_defined :: bool
  chat_sessions :: "mockapi_session list"
  chat_messages :: "'n mockapi_message list"
  accepts_sessions :: "mockapi_session list \<Rightarrow> bool"
  accepts_messages :: "'n mockapi_message list \<Rightarrow> bool"

datatype mockapi_error = MockAPIError string "nat option"

text \<open>
  What \<^verbatim>\<open>JSON.parse(JSON.stringify(v))\<close> returns for a value held in memory: a
  property whose value is undefined is left out, an undefined array element
  becomes null, a date becomes its ISO string, everything else is kept.
\<close>

fun jsonRoundTrip :: "'n platform \<Rightarrow> 'n jsval \<Rightarrow> 'n jsval" where
  "jsonRoundTrip P (JArr xs) =
     JArr (map (\<lambda>x. if x = JUndefined then JNull else jsonRoundTrip P x) xs)"
| "jsonRoundTrip P (JObj kvs) =
     JObj (map (\<lambda>kv. (fst kv, jsonRoundTrip P (snd kv)))
             (filter (\<lambda>kv. snd kv \<noteq> JUndefined) kvs))"
| "jsonRoundTrip P (JDate t) = JStr (date_toISOString P t)"
| "jsonRoundTrip P v = v"

definition serializeMessage :: "'n platform \<Rightarrow> 'n mockapi_message \<Rightarrow> 'n mockapi_message" where
  "serializeMessage P m =
     m\<lparr> sm_responseContent := jsonRoundTrip P (sm_responseContent m),
        sm_responseMetadata := jsonRoundTrip P (sm_responseMetadata m) \<rparr>"

text \<open>
  \<^verbatim>\<open>getStorageData\<close> for the two keys: the empty list when there is no \<^verbatim>\<open>window\<close>,
  what the store holds otherwise.
\<close>

definition storedMessages :: "'n storage \<Rightarrow> 'n mockapi_message list" where
  "storedMessages st = (if \<not> window_defined st then [] else chat_messages st)"

definition storedSessions :: "'n storage \<Rightarrow> mockapi_session list" where
  "storedSessions st = (if \<not> window_defined st then [] else chat_sessions st)"

text \<open>
  \<^verbatim>\<open>setStorageData\<close> for the two keys: nothing happens when there is no
  \<^verbatim>\<open>window\<close>; otherwise the list is written as JSON text, so what is read later
  is the round trip of what was written; when \<^verbatim>\<open>setItem\<close> throws, the error is
  logged and the store stays as it was.
\<close>

definition setMessages ::
  "'n platform \<Rightarrow> 'n mockapi_message list \<Rightarrow> 'n storage \<Rightarrow> 'n storage" where
  "setMessages P ms st =
     (if \<not> window_defined st then st
      else if accepts_messages st (map (serializeMessage P) ms)
      then st\<lparr> chat_messages := map (serializeMessage P) ms \<rparr>
      else st)"

definition setSessions :: "mockapi_session list \<Rightarrow> 'n storage \<Rightarrow> 'n storage" where
  "setSessions ss st =
     (if \<not> window_defined st then st
      else if accepts_sessions st ss then st\<lparr> chat_sessions := ss \<rparr>
      else st)"

text \<open>\<^verbatim>\<open>Array.prototype.findIndex\<close>; \<open>None\<close> is the result \<open>-1\<close>.\<close>

fun findIndex :: "('a \<Rightarrow> bool) \<Rightarrow> 'a list \<Rightarrow> nat option" where
  "findIndex p [] = None"
| "findIndex p (x # xs) =
     (if p x then Some 0 else map_option Suc (findIndex p xs))"

definition incrementSessionMessageCount :: "int \<Rightarrow> string \<Rightarrow> 'n storage \<Rightarrow> 'n storage" where
  "incrementSessionMessageCount now sessionId st =
     (let sessions = storedSessions st in
      case findIndex (\<lambda>s. ss_id s = sessionId) sessions of
        None \<Rightarrow> st
      | Some index \<Rightarrow>
          setSessions
            (sessions[index := (sessions ! index)
               \<lparr> ss_messageCount := ss_messageCount (sessions ! index) + 1,
                 ss_lastActivity := now,
                 ss_updatedAt := now \<rparr>])
            st)"

text \<open>
  \<^verbatim>\<open>transformMessage\<close>, with its repair of stored content: content that is an
  object, not an array, and has a key starting with \<^verbatim>\<open>text\<close> or \<^verbatim>\<open>chart\<close> is
  wrapped in a one-element array and given the type mixed.
\<close>

definition transformMessage :: "'n platform \<Rightarrow> 'n mockapi_message \<Rightarrow> 'n message" where
  "transformMessage P message =
     (let responseData =
        (case sm_responseType message of
           None \<Rightarrow> None
         | Some responseType \<Rightarrow>
             (let processedContent = sm_responseContent message in
              if truthy P processedContent \<and> typeofObject processedContent
                 \<and> \<not> isArray processedContent \<and> hasTextOrChartKey processedContent
              then Some \<lparr> rd_type = RMixed, rd_content = JArr [processedContent],
                          rd_metadata = sm_responseMetadata message \<rparr>
              else Some \<lparr> rd_type = responseType, rd_content = processedContent,
                          rd_metadata = sm_responseMetadata message \<rparr>))
      in \<lparr> m_id = sm_id message, m_sessionId = sm_sessionId message,
           m_content = sm_content message, m_type = sm_type message,
           m_timestamp = sm_timestamp message, m_responseData = responseData \<rparr>)"

definition getMessages :: "'n platform \<Rightarrow> string \<Rightarrow> 'n storage \<Rightarrow> 'n message list" where
  "getMessages P sessionId st =
     jsSort (\<lambda>a b. m_timestamp a - m_timestamp b)
       (map (transformMessage P)
          (filter (\<lambda>m. sm_sessionId m = sessionId) (storedMessages st)))"

text \<open>
  The test of the duplicate-write guard: same session, same content, same
  type, and stored time less than a second away from the new message's time.
\<close>

definition similarMessage :: "'n new_message \<Rightarrow> 'n mockapi_message \<Rightarrow> bool" where
  "similarMessage message m \<longleftrightarrow>
     sm_sessionId m = nm_sessionId message \<and>
     sm_content m = nm_content message \<and>
     sm_type m = nm_type message \<and>
     \<bar>sm_timestamp m - nm_timestamp message\<bar> < 1000"

text \<open>
  The flat record \<^verbatim>\<open>messageData\<close> that both clients build from a message to
  create; the remote client builds it without an id (here the empty id).
\<close>

definition messageData :: "string \<Rightarrow> 'n new_message \<Rightarrow> 'n mockapi_message" where
  "messageData messageId message =
     \<lparr> sm_id = messageId,
       sm_sessionId = nm_sessionId message,
       sm_content = nm_content message,
       sm_type = nm_type message,
       sm_timestamp = nm_timestamp message,
       sm_responseType = map_option rd_type (nm_responseData message),
       sm_responseContent =
         (case nm_responseData message of None \<Rightarrow> JUndefined | Some r \<Rightarrow> rd_content r),
       sm_responseMetadata =
         (case nm_responseData message of None \<Rightarrow> JUndefined | Some r \<Rightarrow> rd_metadata r) \<rparr>"

text \<open>
  \<^verbatim>\<open>createMessage\<close> of the local-storage client; \<open>messageId\<close> is what
  \<^verbatim>\<open>generateId\<close> returns and \<open>now\<close> the time of the call. The result is the
  message returned and the store after the call.
\<close>

definition createMessage ::
  "'n platform \<Rightarrow> string \<Rightarrow> int \<Rightarrow> 'n new_message \<Rightarrow> 'n storage \<Rightarrow> 'n message \<times> 'n storage" where
  "createMessage P messageId now message st =
     (let messageData = messageData messageId message;
          messages = storedMessages st
      in case find (similarMessage message) messages of
           Some existingMessage \<Rightarrow> (transformMessage P existingMessage, st)
         | None \<Rightarrow>
             (let st1 = setMessages P (messages @ [messageData]) st;
                  st2 = incrementSessionMessageCount now (nm_sessionId message) st1
              in (transformMessage P messageData, st2)))"

text \<open>
  \<^verbatim>\<open>updateMessage\<close>: each of the four fields is taken from the update when the
  update's value is truthy and from the stored record otherwise.
\<close>

definition updateMessage ::
  "'n platform \<Rightarrow> string \<Rightarrow> 'n message_updates \<Rightarrow> 'n storage
     \<Rightarrow> mockapi_error + 'n message \<times> 'n storage" where
  "updateMessage P messageId updates st =
     (let messages = storedMessages st in
      case findIndex (\<lambda>m. sm_id m = messageId) messages of
        None \<Rightarrow> Inl (MockAPIError ''Message not found'' (Some 404))
      | Some index \<Rightarrow>
          (let old = messages ! index;
               updated = old
                 \<lparr> sm_content :=
                     (case u_content updates of
                        Some c \<Rightarrow> if c \<noteq> [] then c else sm_content old
                      | None \<Rightarrow> sm_content old),
                   sm_responseType :=
                     (case u_responseData updates of
                        Some r \<Rightarrow> Some (rd_type r)
                      | None \<Rightarrow> sm_responseType old),
                   sm_responseContent :=
                     (case u_responseData updates of
                        Some r \<Rightarrow> jsOr P (rd_content r) (sm_responseContent old)
                      | None \<Rightarrow> sm_responseContent old),
                   sm_responseMetadata :=
                     (case u_responseData updates of
                        Some r \<Rightarrow> jsOr P (rd_metadata r) (sm_responseMetadata old)
                      | None \<Rightarrow> sm_responseMetadata old) \<rparr>;
               messages' = messages[index := updated]
           in Inr (transformMessage P updated, setMessages P messages' st)))"

text \<open>
  Two conditions on what is written. \<open>storedAsMixed\<close> is the test under which
  \<^verbatim>\<open>transformMessage\<close> repairs stored content; \<open>survivesStorage\<close> says that a
  response data record comes back from the store as it went in: its content
  and metadata are unchanged by the JSON round trip and the content is not
  repaired on reading.
\<close>

definition storedAsMixed :: "'n platform \<Rightarrow> 'n jsval \<Rightarrow> bool" where
  "storedAsMixed P c \<longleftrightarrow>
     truthy P c \<and> typeofObject c \<and> \<not> isArray c \<and> hasTextOrChartKey c"

definition survivesStorage :: "'n platform \<Rightarrow> 'n response_data option \<Rightarrow> bool" where
  "survivesStorage P rd \<longleftrightarrow>
     (case rd of
        None \<Rightarrow> True
      | Some r \<Rightarrow> jsonRoundTrip P (rd_content r) = rd_content r \<and>
                 jsonRoundTrip P (rd_metadata r) = rd_metadata r \<and>
                 \<not> storedAsMixed P (rd_content r))"

text \<open>
  The metadata of a normalized response as the value the chat store passes on
  in \<^verbatim>\<open>responseData.metadata\<close>: the upstream value, or the fresh record with
  its time stamp, a \<^verbatim>\<open>Date\<close>.
\<close>

fun metadataValue :: "'n response_metadata \<Rightarrow> 'n jsval" where
  "metadataValue (Upstream v) = v"
| "metadataValue (Stamp t) = JObj [(''timestamp'', JDate t)]"
| "metadataValue (StampWebhook t d) =
     JObj [(''timestamp'', JDate t), (''source'', JStr ''n8n-webhook''),
           (''originalResponse'', d)]"

text \<open>
  When the local-storage client keeps a new message: its guard finds no
  similar record, and the write of the longer list takes effect.
\<close>

definition storesLocally :: "'n platform \<Rightarrow> string \<Rightarrow> 'n new_message \<Rightarrow> 'n storage \<Rightarrow> bool" where
  "storesLocally P messageId message st \<longleftrightarrow>
     window_defined st \<and>
     find (similarMessage message) (storedMessages st) = None \<and>
     accepts_messages st
       (map (serializeMessage P) (storedMessages st @ [messageData messageId message]))"

section \<open>Persistence client: remote first, local storage as fallback\<close>

text \<open>
  The exported client. It is configured with the address of the remote
  service; with the placeholder address it goes straight to the local-storage
  client. The remote service is not part of the repository: \<open>post_message\<close> is
  what it answers to \<^verbatim>\<open>POST /messages\<close> with a given body, \<open>get_messages\<close> what it
  answers to \<^verbatim>\<open>GET /messages?sessionId=\<close>, an error standing for every way the
  remote call throws (status outside 2xx, timeout, transport failure, a body
  that is not JSON or not of the shape read).
\<close>

record mockapi_config =
  mc_baseUrl :: string
  mc_projectId :: string

definition useFallback :: "mockapi_config \<Rightarrow> bool" where
  "useFallback config \<longleftrightarrow>
     strIncludes (mc_baseUrl config) ''mockapi.io'' \<and> mc_projectId config = ''your-project-id''"

record 'n remote =
  post_message :: "'n mockapi_message \<Rightarrow> mockapi_error + 'n mockapi_message"
  get_messages :: "string \<Rightarrow> mockapi_error + 'n mockapi_message list"

text \<open>The body of the \<^verbatim>\<open>POST\<close>: \<^verbatim>\<open>messageData\<close> without an id, as JSON text.\<close>

definition postBody :: "'n platform \<Rightarrow> 'n new_message \<Rightarrow> 'n mockapi_message" where
  "postBody P message = serializeMessage P (messageData [] message)"

text \<open>
  \<^verbatim>\<open>MockAPIClient.createMessage\<close>: the remote call, and on any error the same
  operation on the local-storage client. After a successful remote call the
  session's count is updated on the remote service, with every error of that
  update swallowed; nothing of it reaches the local store or the result.
\<close>

definition clientCreateMessage ::
  "'n platform \<Rightarrow> mockapi_config \<Rightarrow> 'n remote \<Rightarrow> string \<Rightarrow> int \<Rightarrow> 'n new_message
     \<Rightarrow> 'n storage \<Rightarrow> 'n message \<times> 'n storage" where
  "clientCreateMessage P config remote messageId now message st =
     (if useFallback config then createMessage P messageId now message st
      else
        (case post_message remote (postBody P message) of
           Inr createdMessage \<Rightarrow> (transformMessage P createdMessage, st)
         | Inl error \<Rightarrow> createMessage P messageId now message st))"

text \<open>\<^verbatim>\<open>MockAPIClient.getMessages\<close>, in the same way.\<close>

definition clientGetMessages ::
  "'n platform \<Rightarrow> mockapi_config \<Rightarrow> 'n remote \<Rightarrow> string \<Rightarrow> 'n storage \<Rightarrow> 'n message list" where
  "clientGetMessages P config remote sessionId st =
     (if useFallback config then getMessages P sessionId st
      else
        (case get_messages remote sessionId of
           Inr messages \<Rightarrow>
             jsSort (\<lambda>a b. m_timestamp a - m_timestamp b) (map (transformMessage P) messages)
         | Inl error \<Rightarrow> getMessages P sessionId st))"

text \<open>
  Which backend serves a call, and when the remote service keeps a message:
  it answers the \<^verbatim>\<open>POST\<close> with a record that has the fields of the body, and
  lists that record when the session's messages are read.
\<close>

definition writeServedLocally ::
  "'n platform \<Rightarrow> mockapi_config \<Rightarrow> 'n remote \<Rightarrow> 'n new_message \<Rightarrow> bool" where
  "writeServedLocally P config remote message \<longleftrightarrow>
     useFallback config \<or> isl (post_message remote (postBody P message))"

definition readServedLocally :: "mockapi_config \<Rightarrow> 'n remote \<Rightarrow> string \<Rightarrow> bool" where
  "readServedLocally config remote sessionId \<longleftrightarrow>
     useFallback config \<or> isl (get_messages remote sessionId)"

definition remoteKeeps ::
  "'n platform \<Rightarrow> 'n remote \<Rightarrow> 'n remote \<Rightarrow> 'n new_message \<Rightarrow> bool" where
  "remoteKeeps P atWrite atRead message \<longleftrightarrow>
     (case post_message atWrite (postBody P message) of
        Inl error \<Rightarrow> False
      | Inr createdMessage \<Rightarrow>
          createdMessage\<lparr> sm_id := [] \<rparr> = postBody P message \<and>
          (case get_messages atRead (nm_sessionId message) of
             Inl error \<Rightarrow> False
           | Inr messages \<Rightarrow> createdMessage \<in> set messages))"

text \<open>A browser's store with given contents that accepts every write.\<close>

definition browserStorage ::
  "mockapi_session list \<Rightarrow> 'n mockapi_message list \<Rightarrow> 'n storage" where
  "browserStorage sessions messages =
     \<lparr> window_defined = True, chat_sessions = sessions, chat_messages = messages,
       accepts_sessions = (\<lambda>ss. True), accepts_messages = (\<lambda>ms. True) \<rparr>"

section \<open>Chart adapter\<close>

text \<open>
  Reading through null or undefined throws a \<^verbatim>\<open>TypeError\<close>, as does calling
  something that is not a function. \<open>member\<close> is \<^verbatim>\<open>v.k\<close>, \<open>optProp\<close> is \<^verbatim>\<open>v?.k\<close>,
  \<open>elementAt\<close> is \<^verbatim>\<open>v[i]\<close> on a value that is not null or undefined, \<open>index\<close> is
  \<^verbatim>\<open>v[i]\<close> on any value.
\<close>

datatype js_exception = TypeError

definition isNullish :: "'n jsval \<Rightarrow> bool" where
  "isNullish v \<longleftrightarrow> v = JUndefined \<or> v = JNull"

definition optProp :: "'n jsval \<Rightarrow> string \<Rightarrow> 'n jsval" where
  "optProp v k = (if isNullish v then JUndefined else getProp v k)"

definition member :: "'n jsval \<Rightarrow> string \<Rightarrow> js_exception + 'n jsval" where
  "member v k = (if isNullish v then Inl TypeError else Inr (getProp v k))"

fun elementAt :: "'n jsval \<Rightarrow> nat \<Rightarrow> 'n jsval" where
  "elementAt (JArr xs) i = (if i < length xs then xs ! i else JUndefined)"
| "elementAt (JStr s) i = (if i < length s then JStr [s ! i] else JUndefined)"
| "elementAt (JObj kvs) i = getProp (JObj kvs) (showNat i)"
| "elementAt v i = JUndefined"

definition index :: "'n jsval \<Rightarrow> nat \<Rightarrow> js_exception + 'n jsval" where
  "index v i = (if isNullish v then Inl TypeError else Inr (elementAt v i))"

definition thenE :: "'e + 'a \<Rightarrow> ('a \<Rightarrow> 'e + 'b) \<Rightarrow> 'e + 'b" where
  "thenE r f = (case r of Inl exn \<Rightarrow> Inl exn | Inr a \<Rightarrow> f a)"

text \<open>A callback run over a list in order; the first exception ends the run.\<close>

fun mapE :: "('a \<Rightarrow> 'e + 'b) \<Rightarrow> 'a list \<Rightarrow> 'e + 'b list" where
  "mapE f [] = Inr []"
| "mapE f (x # xs) =
     (case f x of
        Inl exn \<Rightarrow> Inl exn
      | Inr y \<Rightarrow> (case mapE f xs of Inl exn \<Rightarrow> Inl exn | Inr ys \<Rightarrow> Inr (y # ys)))"

text \<open>
  \<^verbatim>\<open>v.length === 0\<close> and \<^verbatim>\<open>v.length > 0\<close> for a value that is not null or
  undefined. An array or a string has its length; an object has whatever its
  \<^verbatim>\<open>length\<close> property holds, compared after conversion to a number; a number or
  boolean has no length.
\<close>

fun greaterThanZero :: "'n platform \<Rightarrow> 'n jsval \<Rightarrow> bool" where
  "greaterThanZero P JUndefined = False"
| "greaterThanZero P JNull = False"
| "greaterThanZero P (JBool b) = b"
| "greaterThanZero P (JNum n) = num_positive P n"
| "greaterThanZero P (JStr s) = string_positive P s"
| "greaterThanZero P (JArr xs) = string_positive P (toStr P (JArr xs))"
| "greaterThanZero P (JObj kvs) = False"
| "greaterThanZero P (JDate t) = (0 < t)"

fun lengthIsZero :: "'n platform \<Rightarrow> 'n jsval \<Rightarrow> bool" where
  "lengthIsZero P (JArr xs) = (xs = [])"
| "lengthIsZero P (JStr s) = (s = [])"
| "lengthIsZero P (JObj kvs) =
     (case getProp (JObj kvs) ''length'' of JNum n \<Rightarrow> num_falsy P n | _ \<Rightarrow> False)"
| "lengthIsZero P v = False"

fun lengthPositive :: "'n platform \<Rightarrow> 'n jsval \<Rightarrow> bool" where
  "lengthPositive P (JArr xs) = (xs \<noteq> [])"
| "lengthPositive P (JStr s) = (s \<noteq> [])"
| "lengthPositive P (JObj kvs) = greaterThanZero P (getProp (JObj kvs) ''length'')"
| "lengthPositive P v = False"

text \<open>\<^verbatim>\<open>obj[key] = value\<close> on an object literal: an existing key keeps its place.\<close>

fun setProp :: "(string \<times> 'v) list \<Rightarrow> string \<Rightarrow> 'v \<Rightarrow> (string \<times> 'v) list" where
  "setProp [] k v = [(k, v)]"
| "setProp ((k', v') # kvs) k v =
     (if k' = k then (k, v) # kvs else (k', v') # setProp kvs k v)"

text \<open>The own enumerable properties that \<^verbatim>\<open>{...v}\<close> copies.\<close>

fun ownProperties :: "'n jsval \<Rightarrow> (string \<times> 'n jsval) list" where
  "ownProperties (JObj kvs) = kvs"
| "ownProperties (JArr xs) = zip (map showNat [0..<length xs]) xs"
| "ownProperties (JStr s) = zip (map showNat [0..<length s]) (map (\<lambda>c. JStr [c]) s)"
| "ownProperties v = []"

definition chartTypes :: "string list" where
  "chartTypes = [''bar'', ''line'', ''pie'', ''area'', ''scatter'']"

record 'n chart_data =
  cd_type :: string
  cd_title :: "'n jsval"
  cd_data :: "'n jsval"
  cd_xKey :: string
  cd_yKey :: string
  cd_options :: "(string \<times> 'n jsval) list"

text \<open>
  One record of a multi-series line or area chart: \<^verbatim>\<open>{name: label}\<close>, then for
  each dataset the value at the label's position under the dataset's label
  (or \<^verbatim>\<open>series\<close> and the dataset's position).
\<close>

fun multiSeriesRecord ::
  "'n platform \<Rightarrow> nat \<Rightarrow> (string \<times> 'n jsval) list \<Rightarrow> ('n jsval \<times> nat) list
     \<Rightarrow> js_exception + (string \<times> 'n jsval) list" where
  "multiSeriesRecord P idx obj [] = Inr obj"
| "multiSeriesRecord P idx obj ((ds, dsIdx) # rest) =
     thenE (member ds ''label'') (\<lambda>label.
       let key = toStr P (jsOr P label (JStr (''series'' @ showNat dsIdx))) in
       thenE (member ds ''data'') (\<lambda>dsData.
         thenE (index dsData idx) (\<lambda>value.
           multiSeriesRecord P idx (setProp obj key value) rest)))"

text \<open>
  The \<^verbatim>\<open>try\<close> block of \<^verbatim>\<open>transformChartData\<close>: \<open>Inl\<close> is an exception thrown inside
  it, \<open>Inr None\<close> is a \<^verbatim>\<open>return null\<close>, \<open>Inr (Some d)\<close> is the data array it
  leaves in \<^verbatim>\<open>dataArray\<close>.
\<close>

definition chartDataArray ::
  "'n platform \<Rightarrow> string \<Rightarrow> 'n jsval \<Rightarrow> js_exception + 'n jsval option" where
  "chartDataArray P type chartDataRaw =
     (let datasets = optProp chartDataRaw ''datasets'' in
      if type = ''scatter'' \<and> truthy P datasets \<and> isArray datasets
         \<and> truthy P (optProp (elementAt datasets 0) ''data'')
      then
        (let dataArray = getProp (elementAt datasets 0) ''data'' in
         if lengthIsZero P dataArray then Inr None
         else thenE (member (elementAt dataArray 0) ''x'') (\<lambda>x.
                if x = JUndefined then Inr None
                else thenE (member (elementAt dataArray 0) ''y'') (\<lambda>y.
                       if y = JUndefined then Inr None else Inr (Some dataArray))))
      else if isArray chartDataRaw then Inr (Some chartDataRaw)
      else if truthy P (optProp chartDataRaw ''labels'')
              \<and> isArray (getProp chartDataRaw ''datasets'')
      then
        (case (getProp chartDataRaw ''labels'', getProp chartDataRaw ''datasets'') of
           (JArr labels, JArr dss) \<Rightarrow>
             (if (type = ''line'' \<or> type = ''area'') \<and> length dss > 1 then
                thenE (mapE (\<lambda>(label, idx).
                          multiSeriesRecord P idx [(''name'', label)]
                            (zip dss [0..<length dss]))
                        (zip labels [0..<length labels]))
                  (\<lambda>objs. Inr (Some (JArr (map JObj objs))))
              else
                thenE (mapE (\<lambda>(label, idx).
                          thenE (member (elementAt (JArr dss) 0) ''data'') (\<lambda>d0.
                            thenE (index d0 idx) (\<lambda>value.
                              Inr (JObj [(''name'', label), (''value'', value)]))))
                        (zip labels [0..<length labels]))
                  (\<lambda>objs. Inr (Some (JArr objs))))
         | _ \<Rightarrow> Inl TypeError)
      else if typeofObject chartDataRaw \<and> chartDataRaw \<noteq> JNull
      then Inr (Some (JArr [chartDataRaw]))
      else Inr None)"

definition capitalize :: "string \<Rightarrow> string" where
  "capitalize s =
     (case s of
        [] \<Rightarrow> []
      | c # cs \<Rightarrow>
          (if (97::nat) \<le> of_char c \<and> (of_char c :: nat) \<le> 122
           then char_of (of_char c - (32::nat)) # cs else c # cs))"

definition defaultChartOptions :: "(string \<times> 'n jsval) list" where
  "defaultChartOptions =
     [(''colors'', JArr [JStr ''hsl(var(--chart-1))'', JStr ''hsl(var(--chart-2))'',
                         JStr ''hsl(var(--chart-3))'', JStr ''hsl(var(--chart-4))'',
                         JStr ''hsl(var(--chart-5))'']),
      (''showLegend'', JBool True),
      (''showGrid'', JBool True),
      (''showTooltip'', JBool True),
      (''responsive'', JBool True)]"

text \<open>
  \<^verbatim>\<open>transformChartData\<close>: \<open>Inl\<close> is an exception that leaves the function,
  \<open>Inr None\<close> is the result null. An exception inside the \<^verbatim>\<open>try\<close> block is caught
  and gives null; the reading of \<^verbatim>\<open>firstItem.x\<close> after the block is not guarded.
\<close>

definition transformChartData ::
  "'n platform \<Rightarrow> 'n jsval \<Rightarrow> js_exception + 'n chart_data option" where
  "transformChartData P chartConfig =
     (if \<not> truthy P chartConfig \<or> \<not> typeofObject chartConfig then Inr None
      else
        (let type = getProp chartConfig ''type'';
             chartDataRaw = getProp chartConfig ''data'';
             options = getProp chartConfig ''options''
         in if \<not> truthy P type \<or> \<not> includesStr chartTypes type then Inr None
            else
              (case type of
                 JStr t \<Rightarrow>
                   (case chartDataArray P t chartDataRaw of
                      Inl error \<Rightarrow> Inr None
                    | Inr None \<Rightarrow> Inr None
                    | Inr (Some dataArray) \<Rightarrow>
                        (let title = jsOr P (getProp chartConfig ''title'')
                                       (jsOr P (optProp (optProp options ''title'') ''text'')
                                          (JStr (capitalize t @ '' Chart'')));
                             result = (\<lambda>xKey yKey.
                               Inr (Some \<lparr> cd_type = t, cd_title = title, cd_data = dataArray,
                                           cd_xKey = xKey, cd_yKey = yKey,
                                           cd_options =
                                             foldl (\<lambda>obj (k, v). setProp obj k v)
                                               defaultChartOptions (ownProperties options) \<rparr>))
                         in if lengthPositive P dataArray then
                              (let firstItem = elementAt dataArray 0 in
                               if t = ''scatter'' then
                                 thenE (member firstItem ''x'') (\<lambda>x.
                                   if x \<noteq> JUndefined then
                                     thenE (member firstItem ''y'') (\<lambda>y.
                                       if y \<noteq> JUndefined then result ''x'' ''y''
                                       else result ''name'' ''value'')
                                   else result ''name'' ''value'')
                               else result ''name'' ''value'')
                            else result ''name'' ''value''))
               | _ \<Rightarrow> Inr None)))"

text \<open>
  \<^verbatim>\<open>validateChartData\<close> of the chart renderer, which every chart model passes
  through before it is drawn: \<open>Some\<close> is the error shown in place of the chart.
\<close>

definition validateChartData :: "'n chart_data \<Rightarrow> string option" where
  "validateChartData chartData =
     (if \<not> (cd_type chartData \<noteq> [] \<and> cd_type chartData \<in> set chartTypes)
      then Some (''Invalid chart type: '' @ cd_type chartData)
      else (case cd_data chartData of
              JArr items \<Rightarrow>
                if items = [] then Some ''Chart data must be a non-empty array''
                else if \<not> list_all (\<lambda>item. typeofObject item \<and> item \<noteq> JNull) items
                then Some ''All chart data items must be objects''
                else None
            | _ \<Rightarrow> Some ''Chart data must be a non-empty array''))"

section \<open>Mixed-content renderer\<close>

text \<open>
  The numbers the comparator works with. \<^verbatim>\<open>parseInt\<close> returns a double: the
  integer the digits spell, rounded to 53 significant bits (to the nearest
  such number, to the even one of two equally near), and \<^verbatim>\<open>Infinity\<close> from
  \<open>2^1024\<close> on. So a \<open>number\<close> here is an integer that a double holds, or
  \<^verbatim>\<open>Infinity\<close>. (For more than 20 significant digits the language lets an
  engine replace the digits after the 20th by zeros before rounding; the
  model rounds the number as spelt.)
\<close>

datatype number = Finite int | PosInfinity

text \<open>The number of binary digits of a positive integer.\<close>

function bitLength :: "int \<Rightarrow> nat" where
  "bitLength n = (if n \<le> 0 then 0 else Suc (bitLength (n div 2)))"
  by pat_completeness auto

termination bitLength
  by (relation "measure nat") auto

declare bitLength.simps [simp del]

text \<open>
  Rounding of a non-negative integer to 53 significant bits: below \<open>2^53\<close>
  it is kept, above, with \<open>unit\<close> the weight of the last bit kept, the
  remainder below it is dropped or rounded up to one more \<open>unit\<close>.
\<close>

definition roundToSignificand :: "int \<Rightarrow> int" where
  "roundToSignificand n =
     (if n < 2 ^ 53 then n
      else (let unit = 2 ^ (bitLength n - 53);
                significand = n div unit;
                remainder = n mod unit
            in if unit < 2 * remainder \<or> (2 * remainder = unit \<and> odd significand)
               then (significand + 1) * unit
               else significand * unit))"

definition toNumber :: "int \<Rightarrow> number" where
  "toNumber n =
     (let v = roundToSignificand n in if v < 2 ^ 1024 then Finite v else PosInfinity)"

text \<open>
  \<open>getNumber\<close> is the number the comparator reads off a key: \<^verbatim>\<open>parseInt\<close> of
  the run of decimal digits at its end (\<^verbatim>\<open>/\d+$/\<close>), 0 when there is none.
\<close>

definition getNumber :: "string \<Rightarrow> number" where
  "getNumber key =
     (let digits = rev (takeWhile isDigit (rev key)) in
      if digits = [] then Finite 0
      else toNumber (foldl (\<lambda>n c. 10 * n + (of_char c - 48)) 0 digits))"

text \<open>\<^verbatim>\<open>a < b\<close> on these numbers.\<close>

fun numberLess :: "number \<Rightarrow> number \<Rightarrow> bool" where
  "numberLess (Finite x) (Finite y) \<longleftrightarrow> x < y"
| "numberLess (Finite x) PosInfinity \<longleftrightarrow> True"
| "numberLess PosInfinity b \<longleftrightarrow> False"

text \<open>
  \<^verbatim>\<open>aNum - bNum\<close>: the difference of two finite numbers, rounded as every
  result of double arithmetic is. Where one of the two is \<^verbatim>\<open>Infinity\<close> the
  difference is \<^verbatim>\<open>Infinity\<close> or \<^verbatim>\<open>-Infinity\<close>; the comparator's result is an integer
  in the model, and the difference is given as 1 or \<open>- 1\<close> there, which
  \<^verbatim>\<open>sort\<close>, reading only the sign of the result, does not tell apart. (The
  comparator subtracts only numbers that differ, so the difference of
  \<^verbatim>\<open>Infinity\<close> and \<^verbatim>\<open>Infinity\<close>, which is \<^verbatim>\<open>NaN\<close> and read as 0 by \<^verbatim>\<open>sort\<close>, does not
  arise.)
\<close>

fun numberDifference :: "number \<Rightarrow> number \<Rightarrow> int" where
  "numberDifference (Finite x) (Finite y) =
     (if y \<le> x then roundToSignificand (x - y) else - roundToSignificand (y - x))"
| "numberDifference (Finite x) PosInfinity = - 1"
| "numberDifference PosInfinity (Finite y) = 1"
| "numberDifference PosInfinity PosInfinity = 0"

definition compareKeys :: "'n platform \<Rightarrow> string \<Rightarrow> string \<Rightarrow> int" where
  "compareKeys P a b =
     (let aNum = getNumber a; bNum = getNumber b in
      if aNum \<noteq> bNum then numberDifference aNum bNum
      else if startsWith a ''text'' \<and> startsWith b ''chart'' then - 1
      else if startsWith a ''chart'' \<and> startsWith b ''text'' then 1
      else locale_compare P a b)"

definition sortedKeys :: "'n platform \<Rightarrow> 'n jsval \<Rightarrow> string list" where
  "sortedKeys P item = jsSort (compareKeys P) (objectKeys item)"

text \<open>
  What the renderer pushes: a markdown fragment for a text key, a chart for a
  chart key whose value the adapter accepts, an error panel for one it
  rejects. Each carries the position of its object, the position of its key
  among the sorted keys, and the key.
\<close>

datatype 'n fragment =
    TextFragment nat nat string string
  | ChartFragment nat nat string "'n chart_data"
  | ChartErrorFragment nat nat string "'n jsval"

fun fragmentKey :: "'n fragment \<Rightarrow> string" where
  "fragmentKey (TextFragment itemIndex keyIndex key s) = key"
| "fragmentKey (ChartFragment itemIndex keyIndex key c) = key"
| "fragmentKey (ChartErrorFragment itemIndex keyIndex key v) = key"

fun renderKeys ::
  "'n platform \<Rightarrow> nat \<Rightarrow> 'n jsval \<Rightarrow> nat \<Rightarrow> string list \<Rightarrow> js_exception + 'n fragment list" where
  "renderKeys P itemIndex item keyIndex [] = Inr []"
| "renderKeys P itemIndex item keyIndex (key # keys) =
     (let value = getProp item key in
      if startsWith key ''text'' \<and> typeofString value then
        thenE (renderKeys P itemIndex item (keyIndex + 1) keys) (\<lambda>rest.
          Inr (TextFragment itemIndex keyIndex key (toStr P value) # rest))
      else if startsWith key ''chart'' \<and> truthy P value \<and> typeofObject value then
        thenE (transformChartData P value) (\<lambda>chartData.
          thenE (renderKeys P itemIndex item (keyIndex + 1) keys) (\<lambda>rest.
            Inr ((case chartData of
                    Some c \<Rightarrow> ChartFragment itemIndex keyIndex key c
                  | None \<Rightarrow> ChartErrorFragment itemIndex keyIndex key value) # rest)))
      else renderKeys P itemIndex item (keyIndex + 1) keys)"

definition renderItem :: "'n platform \<Rightarrow> nat \<Rightarrow> 'n jsval \<Rightarrow> js_exception + 'n fragment list" where
  "renderItem P itemIndex item =
     (if \<not> truthy P item \<or> \<not> typeofObject item then Inr []
      else renderKeys P itemIndex item 0 (sortedKeys P item))"

datatype 'n rendered =
    NoContent
  | NoValidContent
  | MixedContent "'n fragment list"

definition mixedContentRenderer :: "'n platform \<Rightarrow> 'n jsval \<Rightarrow> js_exception + 'n rendered" where
  "mixedContentRenderer P content =
     (case content of
        JArr items \<Rightarrow>
          if items = [] then Inr NoContent
          else thenE (mapE (\<lambda>(item, itemIndex). renderItem P itemIndex item)
                        (zip items [0..<length items]))
                 (\<lambda>pushed. let renderItems = concat pushed in
                    if renderItems = [] then Inr NoValidContent
                    else Inr (MixedContent renderItems))
      | _ \<Rightarrow> Inr NoContent)"

text \<open>
  The order the fragments of one object are to be in: by number, as the
  comparator reads it off the key, and for equal numbers no chart key before
  a text key.
\<close>

definition keyBefore :: "string \<Rightarrow> string \<Rightarrow> bool" where
  "keyBefore a b \<longleftrightarrow>
     numberLess (getNumber a) (getNumber b) \<or>
     (getNumber a = getNumber b \<and> \<not> (startsWith a ''chart'' \<and> startsWith b ''text''))"

definition textOrChartKey :: "string \<Rightarrow> bool" where
  "textOrChartKey key \<longleftrightarrow> startsWith key ''text'' \<or> startsWith key ''chart''"

text \<open>The keys of an object for which the renderer pushes a fragment.\<close>

definition renderable :: "'n platform \<Rightarrow> 'n jsval \<Rightarrow> string \<Rightarrow> bool" where
  "renderable P item key \<longleftrightarrow>
     (startsWith key ''text'' \<and> typeofString (getProp item key)) \<or>
     (startsWith key ''chart'' \<and> truthy P (getProp item key) \<and> typeofObject (getProp item key))"

text \<open>The keys of the fragments of a rendering, in the order they are shown.\<close>

fun renderedKeys :: "'n rendered \<Rightarrow> string list" where
  "renderedKeys (MixedContent fragments) = map fragmentKey fragments"
| "renderedKeys r = []"

section \<open>Chat state store: sending a message\<close>

text \<open>
  The store's \<^verbatim>\<open>sendMessage\<close> is an asynchronous function. Its effects outside
  the store are the calls it issues: \<open>created\<close> lists the messages handed to
  the persistence client's \<^verbatim>\<open>createMessage\<close>, \<open>webhookCalls\<close> the requests
  handed to the webhook client. Between its \<^verbatim>\<open>await\<close>s an invocation is
  suspended; the suspended invocations are the list \<open>inflight\<close>, each with the
  point it waits at. \<open>sendingMessageRef\<close> is the ref that guards against a
  second submission.
\<close>

datatype 'n create_request =
  CreateMessage string string message_type int "'n n8n_response option"

record n8n_request =
  rq_username :: string
  rq_message :: string
  rq_sessionId :: string
  rq_timestamp :: int
  rq_messageId :: string

datatype phase = SavingUserMessage | AwaitingUpstream | SavingAssistantMessage

record send_task =
  task_sessionId :: string
  task_content :: string
  task_tempMessageId :: string
  task_phase :: phase

record chat_session =
  cs_id :: string
  cs_messageCount :: int

record 'n chat_store =
  sendingMessageRef :: bool
  st_isLoading :: bool
  st_error :: "string option"
  st_sessions :: "chat_session list"
  currentMessageId :: "string option"
  currentMessages :: "'n message list"
  created :: "'n create_request list"
  webhookCalls :: "n8n_request list"
  inflight :: "send_task list"

text \<open>\<^verbatim>\<open>n8nUtils.formatError\<close>, and the message the \<^verbatim>\<open>catch\<close> block of \<^verbatim>\<open>sendMessage\<close> stores.\<close>

fun formatError :: "n8n_error_kind \<Rightarrow> string" where
  "formatError Network = ''Network connection failed. Please check your internet connection.''"
| "formatError Timeout = ''Request timed out. The workflow may be taking longer than expected.''"
| "formatError Server = ''Server error occurred. Please try again later.''"
| "formatError Validation = ''Invalid data format. Please contact support.''"

fun sendErrorMessage :: "thrown \<Rightarrow> string" where
  "sendErrorMessage (ThrownN8N msg kind details) = formatError kind"
| "sendErrorMessage (ThrownError e) = ''Failed to send message''"

text \<open>
  The part of \<^verbatim>\<open>sendMessage\<close> that runs when it is called, up to its first
  \<^verbatim>\<open>await\<close>. \<open>captured\<close> is the \<^verbatim>\<open>state.currentSessionId\<close> the callback closed
  over, \<open>now\<close> the time of the call. The check for a selected session comes
  first, the check of the ref second.
\<close>

definition startSendMessage ::
  "string option \<Rightarrow> string \<Rightarrow> int \<Rightarrow> 'n chat_store \<Rightarrow> 'n chat_store" where
  "startSendMessage captured content now s =
     (case captured of
        None \<Rightarrow> s\<lparr> st_error := Some ''No session selected'' \<rparr>
      | Some sessionId \<Rightarrow>
          if sendingMessageRef s then s
          else
            (let tempMessageId = ''temp-'' @ showInt now in
             s\<lparr> sendingMessageRef := True,
                st_error := None,
                st_isLoading := True,
                currentMessageId := Some tempMessageId,
                created := created s @ [CreateMessage sessionId content User now None],
                inflight := inflight s @
                  [\<lparr> task_sessionId = sessionId, task_content = content,
                     task_tempMessageId = tempMessageId,
                     task_phase = SavingUserMessage \<rparr>] \<rparr>))"

text \<open>What an awaited call settles with.\<close>

datatype 'n settled =
    SavedMessage "'n message"
  | WebhookResponse "'n n8n_response"
  | Rejected thrown

definition addMessage :: "'n message \<Rightarrow> 'n message list \<Rightarrow> 'n message list" where
  "addMessage m prev = (if list_ex (\<lambda>msg. m_id msg = m_id m) prev then prev else prev @ [m])"

text \<open>The \<^verbatim>\<open>catch\<close> and \<^verbatim>\<open>finally\<close> blocks, for the invocation at position \<open>k\<close>.\<close>

definition failSend :: "nat \<Rightarrow> thrown \<Rightarrow> 'n chat_store \<Rightarrow> 'n chat_store" where
  "failSend k error s =
     s\<lparr> st_error := Some (sendErrorMessage error),
        st_isLoading := False,
        currentMessageId := None,
        sendingMessageRef := False,
        inflight := take k (inflight s) @ drop (Suc k) (inflight s) \<rparr>"

text \<open>
  The suspended invocation at position \<open>k\<close> goes on when what it awaits has
  settled: after the user message is saved it calls the webhook, after the
  webhook has answered it hands the assistant message to the persistence
  client, after that is saved it updates the session's count, clears the
  loading state and, in \<^verbatim>\<open>finally\<close>, the ref.
\<close>

definition resumeSendMessage ::
  "nat \<Rightarrow> 'n settled \<Rightarrow> int \<Rightarrow> 'n chat_store \<Rightarrow> 'n chat_store" where
  "resumeSendMessage k outcome now s =
     (if k \<ge> length (inflight s) then s
      else
        (let task = inflight s ! k in
         case (task_phase task, outcome) of
           (p, Rejected error) \<Rightarrow> failSend k error s
         | (SavingUserMessage, SavedMessage savedUserMessage) \<Rightarrow>
             s\<lparr> currentMessages := addMessage savedUserMessage (currentMessages s),
                webhookCalls := webhookCalls s @
                  [\<lparr> rq_username = ''user'', rq_message = task_content task,
                     rq_sessionId = task_sessionId task, rq_timestamp = now,
                     rq_messageId = task_tempMessageId task \<rparr>],
                inflight := (inflight s)[k := task\<lparr> task_phase := AwaitingUpstream \<rparr>] \<rparr>
         | (AwaitingUpstream, WebhookResponse response) \<Rightarrow>
             s\<lparr> created := created s @
                  [CreateMessage (task_sessionId task) [] Assistant now (Some response)],
                inflight := (inflight s)[k := task\<lparr> task_phase := SavingAssistantMessage \<rparr>] \<rparr>
         | (SavingAssistantMessage, SavedMessage savedAssistantMessage) \<Rightarrow>
             s\<lparr> currentMessages := addMessage savedAssistantMessage (currentMessages s),
                st_sessions := map (\<lambda>session.
                    if cs_id session = task_sessionId task
                    then session\<lparr> cs_messageCount := cs_messageCount session + 2 \<rparr>
                    else session) (st_sessions s),
                st_isLoading := False,
                currentMessageId := None,
                sendingMessageRef := False,
                inflight := take k (inflight s) @ drop (Suc k) (inflight s) \<rparr>
         | _ \<Rightarrow> s))"

text \<open>A run of the store: calls of \<^verbatim>\<open>sendMessage\<close> and resumptions, in the order they happen.\<close>

datatype 'n store_event =
    CallSendMessage "string option" string int
  | Resume nat "'n settled" int

fun storeStep :: "'n store_event \<Rightarrow> 'n chat_store \<Rightarrow> 'n chat_store" where
  "storeStep (CallSendMessage captured content now) s = startSendMessage captured content now s"
| "storeStep (Resume k outcome now) s = resumeSendMessage k outcome now s"

definition storeRun :: "'n store_event list \<Rightarrow> 'n chat_store \<Rightarrow> 'n chat_store" where
  "storeRun events s = foldl (\<lambda>s e. storeStep e s) s events"

definition initialStore :: "chat_session list \<Rightarrow> 'n chat_store" where
  "initialStore sessions =
     \<lparr> sendingMessageRef = False, st_isLoading = False, st_error = None,
       st_sessions = sessions, currentMessageId = None, currentMessages = [],
       created = [], webhookCalls = [], inflight = [] \<rparr>"

text \<open>
  The invariant of the guard: the ref is set exactly while an invocation is
  suspended, and at most one invocation is.
\<close>

definition guardInvariant :: "'n chat_store \<Rightarrow> bool" where
  "guardInvariant s \<longleftrightarrow>
     (sendingMessageRef s \<longleftrightarrow> inflight s \<noteq> []) \<and> length (inflight s) \<le> 1"

section \<open>Theorems: deduplication\<close>

lemma dedupLoop_append:
  "dedupLoop (xs @ ys) seen out =
     (case dedupLoop xs seen out of (s, acc) \<Rightarrow> dedupLoop ys s acc)"
  by (induction xs arbitrary: seen out) (auto simp: Let_def)

lemma keptLines_snoc:
  "keptLines (ls @ [l]) =
     keptLines ls @ (if trim l = [] \<or> trim l \<notin> set (map trim ls) then [l] else [])"
proof -
  have "filter (keptAt (ls @ [l])) [0..<length ls] = filter (keptAt ls) [0..<length ls]"
    by (rule filter_cong) (auto simp: keptAt_def nth_append)
  moreover have "map (\<lambda>i. (ls @ [l]) ! i) (filter (keptAt ls) [0..<length ls])
               = map (\<lambda>i. ls ! i) (filter (keptAt ls) [0..<length ls])"
    by (rule map_cong) (auto simp: nth_append)
  ultimately show ?thesis
    by (auto simp: keptLines_def keptAt_def nth_append)
qed

text \<open>
  Loop invariant, by induction on the lines read so far: \<open>seen\<close> holds the
  trimmed forms of the non-blank lines, \<open>out\<close> the surviving lines.
\<close>

lemma dedupLoop_inv:
  "set (fst (dedupLoop ls [] [])) = set (map trim ls) - {[]} \<and>
   snd (dedupLoop ls [] []) = keptLines ls"
proof (induction ls rule: rev_induct)
  case Nil
  show ?case by (simp add: keptLines_def)
next
  case (snoc l ls)
  obtain s acc where sa: "dedupLoop ls [] [] = (s, acc)"
    by (cases "dedupLoop ls [] []")
  with snoc have s: "set s = set (map trim ls) - {[]}" and acc: "acc = keptLines ls"
    by auto
  show ?case
    using s acc by (auto simp: dedupLoop_append sa keptLines_snoc Let_def)
qed

text \<open>
  C5 (as the code has it). The text is split on newline; a line survives
  exactly when its trimmed form is empty or differs from the trimmed form of
  every earlier line; the survivors are rejoined with newline, in their order.
  The comparison is on trimmed lines, so a line that differs from an earlier
  one only in leading or trailing white space is dropped as well.
\<close>

theorem deduplicateString_keeps_first_trimmed:
  "deduplicateString s = join_nl (keptLines (split_nl s))"
  by (simp add: deduplicateString_def dedupLoop_inv)

theorem deduplicateString_keeps_first_trimmed_witness:
  "join_nl (keptLines (split_nl (''Hi'' @ [newline] @ ''Hi'' @ [newline] @ ''There'')))
     = ''Hi'' @ [newline] @ ''There''"
proof -
  have h: "deduplicateString (''Hi'' @ [newline] @ ''Hi'' @ [newline] @ ''There'')
             = ''Hi'' @ [newline] @ ''There''"
    by code_simp
  show ?thesis
    by (rule trans [OF sym [OF deduplicateString_keeps_first_trimmed] h])
qed

text \<open>
  C5 (as stated) fails: on the two lines \<open>a\<close> and \<open>space a\<close> (the second with a
  leading space) no line is identical to an earlier one, so comparing whole
  lines keeps both, while the code keeps only the first.
\<close>

theorem deduplicateString_identical_counterexample:
  "deduplicateString (''a'' @ [newline] @ '' a'') = ''a'' \<and>
   dedupIdentical (''a'' @ [newline] @ '' a'') = ''a'' @ [newline] @ '' a''"
  by code_simp

section \<open>Theorems: the response normalizer\<close>

lemma includesStr_iff: "includesStr l v \<longleftrightarrow> v \<in> JStr ` set l"
  by (cases v) auto

lemma general_path_kinds:
  assumes "truthy P d" "typeofObject d" "\<not> hasExpectedFormat P d"
  shows "r_type (validateResponse P now d) \<in> JStr ` set responseTypes \<and>
         r_messageType (validateResponse P now d) \<in> JStr ` set messageTypes"
  using assms
  unfolding validateResponse_def hasExpectedFormat_def
  by (simp add: Let_def split: prod.split)
     (auto simp: includesStr_iff responseTypes_def messageTypes_def)

text \<open>
  C1 (as the code has it). \<open>validateResponse\<close> is total: its one throwing call,
  \<^verbatim>\<open>JSON.parse\<close>, sits in a \<^verbatim>\<open>try\<close> and is a case of the model. For a body that
  does not pass the expected-format test, the result has a type among interim
  and final and a messageType among the six kinds. For a body that passes the
  test (truthy \<^verbatim>\<open>type\<close> and \<^verbatim>\<open>messageType\<close>, \<^verbatim>\<open>content\<close> present), the body's own
  \<^verbatim>\<open>type\<close> and \<^verbatim>\<open>messageType\<close> are returned as they are, unchecked.
\<close>

theorem validateResponse_kinds:
  "(\<not> hasExpectedFormat P d \<longrightarrow>
      r_type (validateResponse P now d) \<in> JStr ` set responseTypes \<and>
      r_messageType (validateResponse P now d) \<in> JStr ` set messageTypes) \<and>
   (hasExpectedFormat P d \<longrightarrow>
      r_type (validateResponse P now d) = getProp d ''type'' \<and>
      r_messageType (validateResponse P now d) = getProp d ''messageType'')"
proof (cases "truthy P d \<and> typeofObject d")
  case True
  then show ?thesis
    using general_path_kinds [of P d now]
    by (auto simp: validateResponse_def hasExpectedFormat_def)
next
  case False
  then show ?thesis
    by (auto simp: validateResponse_def hasExpectedFormat_def responseTypes_def messageTypes_def)
qed

theorem validateResponse_kinds_witness:
  "\<not> hasExpectedFormat (samplePlatform []) (JObj [(''output'', JStr ''Hi'')]) \<and>
   r_type (validateResponse (samplePlatform []) 0 (JObj [(''output'', JStr ''Hi'')]))
     \<in> JStr ` set responseTypes \<and>
   r_messageType (validateResponse (samplePlatform []) 0 (JObj [(''output'', JStr ''Hi'')]))
     \<in> JStr ` set messageTypes \<and>
   hasExpectedFormat (samplePlatform [])
     (JObj [(''type'', JStr ''foo''), (''messageType'', JStr ''bar''), (''content'', JStr ''x'')]) \<and>
   r_type (validateResponse (samplePlatform []) 0
      (JObj [(''type'', JStr ''foo''), (''messageType'', JStr ''bar''), (''content'', JStr ''x'')]))
     = JStr ''foo''"
proof -
  have h1: "\<not> hasExpectedFormat (samplePlatform []) (JObj [(''output'', JStr ''Hi'')])"
    by code_simp
  have h2: "hasExpectedFormat (samplePlatform [])
     (JObj [(''type'', JStr ''foo''), (''messageType'', JStr ''bar''), (''content'', JStr ''x'')])"
    by code_simp
  have g: "getProp (JObj [(''type'', JStr ''foo''), (''messageType'', JStr ''bar''),
             (''content'', JStr ''x'')] :: int jsval) ''type'' = JStr ''foo''"
    by simp
  from validateResponse_kinds [of "samplePlatform []" "JObj [(''output'', JStr ''Hi'')]" 0] h1
       validateResponse_kinds [of "samplePlatform []"
         "JObj [(''type'', JStr ''foo''), (''messageType'', JStr ''bar''), (''content'', JStr ''x'')]" 0]
       h2 g
  show ?thesis by metis
qed

text \<open>
  C1 (as stated) fails: the body
  \<^verbatim>\<open>{"type": "foo", "messageType": "bar", "content": "x"}\<close> passes the
  expected-format test and comes back with type \<^verbatim>\<open>foo\<close> and messageType \<^verbatim>\<open>bar\<close>.
\<close>

theorem validateResponse_kinds_counterexample:
  "r_type (validateResponse (samplePlatform []) 0
      (JObj [(''type'', JStr ''foo''), (''messageType'', JStr ''bar''), (''content'', JStr ''x'')]))
     \<notin> JStr ` set responseTypes \<and>
   r_messageType (validateResponse (samplePlatform []) 0
      (JObj [(''type'', JStr ''foo''), (''messageType'', JStr ''bar''), (''content'', JStr ''x'')]))
     \<notin> JStr ` set messageTypes"
  by code_simp

section \<open>Theorems: sending and retrying\<close>

lemma retryable_cases:
  "retryable r \<longleftrightarrow>
     (\<exists>msg kind details. r = Some (Inl (ThrownN8N msg kind details)) \<and> kind \<noteq> Validation)"
  by (cases r rule: retryable.cases) auto

text \<open>
  The loop from any attempt number on: it stops at some attempt \<open>k\<close>, having
  made the calls from \<open>attempt\<close> to \<open>k\<close> and waited after each but the last.
\<close>

lemma retryLoop_run:
  assumes "attempt \<le> retryAttempts config"
  shows "\<exists>k. attempt \<le> k \<and> k \<le> retryAttempts config \<and>
             retryLoop config send attempt trace =
               (send k,
                trace @ concat (map (\<lambda>i. [Call i, Wait (retryDelay config * i)]) [attempt..k - 1])
                  @ [Call k]) \<and>
             (\<forall>i. attempt \<le> i \<and> i < k \<longrightarrow> retryable (send i)) \<and>
             (k < retryAttempts config \<longrightarrow> \<not> retryable (send k))"
  using assms
proof (induction config send attempt trace rule: retryLoop.induct)
  case (1 config send attempt trace)
  show ?case
  proof (cases "retryable (send attempt) \<and> attempt \<noteq> retryAttempts config")
    case False
    then have "retryLoop config send attempt trace = (send attempt, trace @ [Call attempt])"
      using "1.prems"
      by (subst retryLoop.simps) (auto split: option.splits sum.splits thrown.splits)
    moreover have "retryable (send attempt) \<Longrightarrow> \<not> attempt < retryAttempts config"
      using False by auto
    ultimately show ?thesis
      using "1.prems" by (intro exI [of _ attempt]) auto
  next
    case True
    then obtain msg kind details where
      s: "send attempt = Some (Inl (ThrownN8N msg kind details))" and k: "kind \<noteq> Validation"
      by (auto simp: retryable_cases)
    from True "1.prems" have lt: "attempt + 1 \<le> retryAttempts config" by auto
    from True have ne: "attempt \<noteq> retryAttempts config" by simp
    have step: "retryLoop config send attempt trace =
                retryLoop config send (attempt + 1)
                  (trace @ [Call attempt, Wait (retryDelay config * attempt)])"
      using True "1.prems" s k by (subst retryLoop.simps) auto
    from "1.IH" [OF "1.prems" s refl refl k ne lt]
    obtain k' where k': "attempt + 1 \<le> k'" "k' \<le> retryAttempts config"
      "retryLoop config send (attempt + 1)
         (trace @ [Call attempt, Wait (retryDelay config * attempt)]) =
         (send k', (trace @ [Call attempt, Wait (retryDelay config * attempt)]) @
            concat (map (\<lambda>i. [Call i, Wait (retryDelay config * i)]) [attempt + 1..k' - 1])
            @ [Call k'])"
      "\<forall>i. attempt + 1 \<le> i \<and> i < k' \<longrightarrow> retryable (send i)"
      "k' < retryAttempts config \<longrightarrow> \<not> retryable (send k')"
      by auto
    have up: "[attempt..k' - 1] = attempt # [attempt + 1..k' - 1]"
      using k'(1) by (simp add: upto_rec1)
    have all: "\<forall>i. attempt \<le> i \<and> i < k' \<longrightarrow> retryable (send i)"
    proof (intro allI impI)
      fix i assume "attempt \<le> i \<and> i < k'"
      then consider "i = attempt" | "attempt + 1 \<le> i \<and> i < k'" by linarith
      then show "retryable (send i)" using True k'(4) by cases auto
    qed
    show ?thesis
      using k'(1,2,5) all
      by (intro exI [of _ k']) (simp add: step k'(3) up)
  qed
qed

text \<open>
  C8. With \<open>N = retryAttempts\<close> at least 1 (3 unless configured), the run makes
  the calls \<open>1, ..., k\<close> for some \<open>k \<le> N\<close> and waits \<open>retryDelay * i\<close> after the
  \<open>i\<close>-th call before the next one. Every call before the last ended in an
  \<^verbatim>\<open>N8NError\<close> that is not of kind validation, so no call follows a validation
  failure. The outcome is the outcome of the last call; the run stops before
  \<open>N\<close> only on an outcome that is not such an error, so when every call fails
  with such an error the \<open>N\<close>-th call's error is the one raised.
\<close>

theorem sendMessageWithRetry_run:
  assumes "1 \<le> retryAttempts config"
  shows "retryAttempts (newN8NClient (c\<lparr>in_retryAttempts := None\<rparr>)) = 3 \<and>
         (\<exists>k. 1 \<le> k \<and> k \<le> retryAttempts config \<and>
             sendMessageWithRetry config send = (send k, retryTrace (retryDelay config) k) \<and>
             (\<forall>i. 1 \<le> i \<and> i < k \<longrightarrow> retryable (send i)) \<and>
             (k < retryAttempts config \<longrightarrow> \<not> retryable (send k)))"
  using retryLoop_run [OF assms, of send "[]"]
  by (simp add: sendMessageWithRetry_def retryTrace_def newN8NClient_def)

theorem sendMessageWithRetry_run_witness:
  "1 \<le> retryAttempts (newN8NClient \<lparr>in_webhookUrl = ''u'', in_streamingUrl = ''s'',
           in_timeout = None, in_retryAttempts = None, in_retryDelay = None\<rparr>) \<and>
   sendMessageWithRetry
     (newN8NClient \<lparr>in_webhookUrl = ''u'', in_streamingUrl = ''s'',
        in_timeout = None, in_retryAttempts = None, in_retryDelay = None\<rparr>)
     (\<lambda>i. Some (Inl (ThrownN8N ''HTTP 500: '' Server (ServerDetails 500 [] []))) :: (thrown + unit) option)
   = (Some (Inl (ThrownN8N ''HTTP 500: '' Server (ServerDetails 500 [] []))),
      [Call 1, Wait 1000, Call 2, Wait 2000, Call 3])"
proof -
  let ?config = "newN8NClient \<lparr>in_webhookUrl = ''u'', in_streamingUrl = ''s'',
        in_timeout = None, in_retryAttempts = None, in_retryDelay = None\<rparr>"
  let ?send = "\<lambda>i::int. Some (Inl (ThrownN8N ''HTTP 500: '' Server (ServerDetails 500 [] [])))
                 :: (thrown + unit) option"
  have n: "retryAttempts ?config = 3" and d: "retryDelay ?config = 1000"
    by (simp_all add: newN8NClient_def)
  have h: "1 \<le> retryAttempts ?config" by (simp add: n)
  from sendMessageWithRetry_run [OF h, of "\<lparr>in_webhookUrl = ''u'', in_streamingUrl = ''s'',
        in_timeout = None, in_retryAttempts = None, in_retryDelay = None\<rparr>" ?send]
  obtain k where k: "1 \<le> k" "k \<le> 3"
    "sendMessageWithRetry ?config ?send = (?send k, retryTrace 1000 k)"
    "k < 3 \<longrightarrow> \<not> retryable (?send k)"
    unfolding n d by blast
  from k(4) k(2) have "k = 3" by simp
  moreover have "retryTrace 1000 3 = [Call 1, Wait 1000, Call 2, Wait 2000, Call 3]"
    by (simp add: retryTrace_def upto_rec1)
  ultimately show ?thesis using k(3) h by simp
qed

text \<open>With a count below 1 no call is made and the loop's closing error is raised.\<close>

lemma sendMessageWithRetry_no_attempts:
  "retryAttempts config < 1 \<Longrightarrow>
     sendMessageWithRetry config send =
       (Some (Inl (ThrownN8N ''Max retry attempts reached'' Network NoDetails)), [])"
  by (simp add: sendMessageWithRetry_def retryLoop.simps)

text \<open>
  The configured timeout has no part in what \<open>sendMessage\<close> does, and a call
  whose exchange never settles stays pending.
\<close>

lemma sendMessage_timeout_unused:
  "sendMessage P (config\<lparr>timeout := t\<rparr>) now ex = sendMessage P config now ex"
  by (simp add: sendMessage_def)

lemma sendMessage_hangs: "sendMessage P config now Hangs = None"
  by (simp add: sendMessage_def)

text \<open>
  C3. The claim asks for the configured timeout to bound the webhook call.
  The code reads the timeout and passes no signal to \<^verbatim>\<open>fetch\<close>: with a timeout
  of one second configured, an answer that arrives after five seconds is
  returned as a normal response, and an exchange that never answers leaves
  the call pending for ever, where a deadline would give a timeout error.
  A status outside 2xx gives kind server with status and body, unless the
  status text contains \<^verbatim>\<open>fetch\<close> or \<^verbatim>\<open>network\<close>, which the \<^verbatim>\<open>catch\<close> block turns
  into kind network.
\<close>

theorem sendMessage_without_deadline:
  "sendMessage (samplePlatform [])
     (newN8NClient \<lparr>in_webhookUrl = ''u'', in_streamingUrl = ''s'',
        in_timeout = Some 1000, in_retryAttempts = None, in_retryDelay = None\<rparr>)
     0 (Responds 5000 \<lparr>status = 200, statusText = ''OK'', body = ''Hi''\<rparr>)
   = Some (Inr \<lparr>r_type = JStr ''final'', r_messageType = JStr ''text'',
               r_content = JStr ''Hi'', r_metadata = Stamp 0\<rparr>) \<and>
   sendMessage (samplePlatform [])
     (newN8NClient \<lparr>in_webhookUrl = ''u'', in_streamingUrl = ''s'',
        in_timeout = Some 1000, in_retryAttempts = None, in_retryDelay = None\<rparr>)
     0 Hangs = None \<and>
   fetch (Some 1000) (Responds 5000 \<lparr>status = 200, statusText = ''OK'', body = ''Hi''\<rparr>)
     = Some (Inl timeoutError) \<and>
   sendMessage (samplePlatform [])
     (newN8NClient \<lparr>in_webhookUrl = ''u'', in_streamingUrl = ''s'',
        in_timeout = Some 1000, in_retryAttempts = None, in_retryDelay = None\<rparr>)
     0 (Responds 10 \<lparr>status = 500, statusText = ''Internal Server Error'', body = ''down''\<rparr>)
   = Some (Inl (ThrownN8N ''HTTP 500: Internal Server Error'' Server
                  (ServerDetails 500 ''Internal Server Error'' ''down'')))"
  by code_simp

section \<open>Theorems: the persistence client\<close>

lemma mset_insertRev: "mset (insertRev cmp x ys) = add_mset x (mset ys)"
  by (induction ys) auto

lemma mset_foldl_insertRev:
  "mset (foldl (\<lambda>acc x. insertRev cmp x acc) acc xs) = mset acc + mset xs"
  by (induction xs arbitrary: acc) (auto simp: mset_insertRev)

lemma mset_jsSort: "mset (jsSort cmp xs) = mset xs"
  by (simp add: jsSort_def mset_foldl_insertRev)

lemma set_jsSort: "set (jsSort cmp xs) = set xs"
  using mset_jsSort [of cmp xs] by (metis set_mset_mset)

lemma findIndex_Some: "findIndex p xs = Some k \<Longrightarrow> k < length xs \<and> p (xs ! k)"
  by (induction xs arbitrary: k) (auto split: if_splits)

lemma incrementSessionMessageCount_messages:
  "storedMessages (incrementSessionMessageCount now sid st) = storedMessages st"
  by (simp add: incrementSessionMessageCount_def setSessions_def storedMessages_def Let_def
           split: option.splits)

text \<open>
  The JSON round trip changes nothing the second time, so a record that has
  been written to the store is unchanged by it.
\<close>

lemma jsonRoundTrip_not_undefined:
  "v \<noteq> JUndefined \<Longrightarrow> jsonRoundTrip P v \<noteq> JUndefined"
  by (cases v) auto

lemma jsonRoundTrip_idem: "jsonRoundTrip P (jsonRoundTrip P v) = jsonRoundTrip P v"
proof (induction v)
  case (JArr xs)
  then show ?case by (auto simp: jsonRoundTrip_not_undefined)
next
  case (JObj kvs)
  let ?p = "\<lambda>kv :: string \<times> 'a jsval. snd kv \<noteq> JUndefined"
  let ?f = "\<lambda>kv :: string \<times> 'a jsval. (fst kv, jsonRoundTrip P (snd kv))"
  let ?ys = "filter ?p kvs"
  have ih: "jsonRoundTrip P (jsonRoundTrip P (snd kv)) = jsonRoundTrip P (snd kv)"
    if "kv \<in> set kvs" for kv
    using JObj [OF that, of "snd kv"] by (cases kv) simp
  have A: "filter ?p (map ?f ?ys) = map ?f ?ys"
    by (rule filter_True) (auto simp: jsonRoundTrip_not_undefined)
  have B: "map ?f (map ?f ?ys) = map ?f ?ys"
    using ih by simp
  show ?case
    by (simp only: jsonRoundTrip.simps A B)
qed simp_all

lemma serializeMessage_idem: "serializeMessage P (serializeMessage P m) = serializeMessage P m"
  by (simp add: serializeMessage_def jsonRoundTrip_idem)

lemma setMessages_serialized:
  assumes "\<forall>m \<in> set (chat_messages st). serializeMessage P m = m"
      and "m \<in> set (chat_messages (setMessages P ms st))"
  shows "serializeMessage P m = m"
  using assms by (auto simp: setMessages_def serializeMessage_idem split: if_splits)

text \<open>When the local client keeps the message, the store gains the new record at its end.\<close>

lemma createMessage_insert:
  assumes "storesLocally P i m st"
  shows "storedMessages (snd (createMessage P i now m st)) =
           map (serializeMessage P) (storedMessages st @ [messageData i m])"
    and "fst (createMessage P i now m st) = transformMessage P (messageData i m)"
proof -
  let ?d = "messageData i m"
  let ?st1 = "st\<lparr> chat_messages := map (serializeMessage P) (chat_messages st @ [?d]) \<rparr>"
  from assms have w: "window_defined st"
    by (simp add: storesLocally_def)
  then have sm: "storedMessages st = chat_messages st"
    by (simp add: storedMessages_def)
  from assms have f: "find (similarMessage m) (chat_messages st) = None"
    and a: "accepts_messages st (map (serializeMessage P) (chat_messages st @ [?d]))"
    by (simp_all add: storesLocally_def sm)
  have s1: "setMessages P (chat_messages st @ [?d]) st = ?st1"
    using w a by (simp add: setMessages_def)
  have c: "createMessage P i now m st =
             (transformMessage P ?d, incrementSessionMessageCount now (nm_sessionId m) ?st1)"
    by (simp add: createMessage_def Let_def sm f s1)
  show "storedMessages (snd (createMessage P i now m st)) =
           map (serializeMessage P) (storedMessages st @ [messageData i m])"
    using w by (simp add: c incrementSessionMessageCount_messages sm) (simp add: storedMessages_def)
  show "fst (createMessage P i now m st) = transformMessage P (messageData i m)"
    by (simp add: c)
qed

text \<open>What a message that survives storage is read back as.\<close>

lemma transformMessage_surviving:
  assumes "survivesStorage P (nm_responseData m)"
      and "c\<lparr> sm_id := [] \<rparr> = serializeMessage P (messageData [] m)"
  shows "transformMessage P c =
           \<lparr> m_id = sm_id c, m_sessionId = nm_sessionId m, m_content = nm_content m,
             m_type = nm_type m, m_timestamp = nm_timestamp m,
             m_responseData = nm_responseData m \<rparr>"
proof -
  let ?b = "serializeMessage P (messageData [] m)"
  have f: "sm_sessionId c = sm_sessionId ?b" "sm_content c = sm_content ?b"
    "sm_type c = sm_type ?b" "sm_timestamp c = sm_timestamp ?b"
    "sm_responseType c = sm_responseType ?b" "sm_responseContent c = sm_responseContent ?b"
    "sm_responseMetadata c = sm_responseMetadata ?b"
    using arg_cong [OF assms(2), of sm_sessionId] arg_cong [OF assms(2), of sm_content]
      arg_cong [OF assms(2), of sm_type] arg_cong [OF assms(2), of sm_timestamp]
      arg_cong [OF assms(2), of sm_responseType] arg_cong [OF assms(2), of sm_responseContent]
      arg_cong [OF assms(2), of sm_responseMetadata]
    by simp_all
  show ?thesis
    using assms(1)
    by (cases "nm_responseData m")
       (auto simp: transformMessage_def f serializeMessage_def messageData_def
                   survivesStorage_def storedAsMixed_def Let_def)
qed

lemma local_roundtrip:
  assumes "storesLocally P i m st"
      and "survivesStorage P (nm_responseData m)"
  shows "\<exists>x \<in> set (getMessages P (nm_sessionId m) (snd (createMessage P i now m st))).
           m_id x = m_id (fst (createMessage P i now m st)) \<and>
           m_content x = nm_content m \<and> m_type x = nm_type m \<and>
           m_responseData x = nm_responseData m"
proof -
  let ?d = "serializeMessage P (messageData i m)"
  have e: "?d\<lparr> sm_id := [] \<rparr> = serializeMessage P (messageData [] m)"
    by (simp add: serializeMessage_def messageData_def)
  have x: "transformMessage P ?d =
           \<lparr> m_id = sm_id ?d, m_sessionId = nm_sessionId m, m_content = nm_content m,
             m_type = nm_type m, m_timestamp = nm_timestamp m,
             m_responseData = nm_responseData m \<rparr>"
    by (rule transformMessage_surviving [OF assms(2) e])
  have "?d \<in> set (storedMessages (snd (createMessage P i now m st)))"
    by (simp add: createMessage_insert(1) [OF assms(1)])
  moreover have "sm_sessionId ?d = nm_sessionId m"
    by (simp add: serializeMessage_def messageData_def)
  ultimately have "transformMessage P ?d
      \<in> set (getMessages P (nm_sessionId m) (snd (createMessage P i now m st)))"
    by (simp add: getMessages_def set_jsSort)
  moreover have "m_id (fst (createMessage P i now m st)) = i"
    by (simp add: createMessage_insert(2) [OF assms(1)] transformMessage_def messageData_def)
  moreover have "sm_id ?d = i"
    by (simp add: serializeMessage_def messageData_def)
  ultimately show ?thesis
    using x by (intro bexI [of _ "transformMessage P ?d"]) simp_all
qed

lemma remote_roundtrip:
  assumes "\<not> useFallback config"
      and "remoteKeeps P atWrite atRead m"
      and "survivesStorage P (nm_responseData m)"
  shows "\<exists>x \<in> set (clientGetMessages P config atRead (nm_sessionId m)
                     (snd (clientCreateMessage P config atWrite i now m st))).
           m_id x = m_id (fst (clientCreateMessage P config atWrite i now m st)) \<and>
           m_content x = nm_content m \<and> m_type x = nm_type m \<and>
           m_responseData x = nm_responseData m"
proof -
  from assms(2) obtain c ms where
    c: "post_message atWrite (postBody P m) = Inr c"
       "c\<lparr> sm_id := [] \<rparr> = serializeMessage P (messageData [] m)"
       "get_messages atRead (nm_sessionId m) = Inr ms" "c \<in> set ms"
    by (auto simp: remoteKeeps_def postBody_def split: sum.splits)
  have x: "transformMessage P c =
           \<lparr> m_id = sm_id c, m_sessionId = nm_sessionId m, m_content = nm_content m,
             m_type = nm_type m, m_timestamp = nm_timestamp m,
             m_responseData = nm_responseData m \<rparr>"
    by (rule transformMessage_surviving [OF assms(3) c(2)])
  have "transformMessage P c \<in> set (clientGetMessages P config atRead (nm_sessionId m)
                     (snd (clientCreateMessage P config atWrite i now m st)))"
    using assms(1) c by (simp add: clientGetMessages_def set_jsSort)
  moreover have "fst (clientCreateMessage P config atWrite i now m st) = transformMessage P c"
    using assms(1) c by (simp add: clientCreateMessage_def)
  ultimately show ?thesis
    using x by (intro bexI [of _ "transformMessage P c"]) simp_all
qed

text \<open>
  C2 (as the code has it). For a message whose response data survives storage
  (plain JSON, without dates, and content that is not an object with a
  \<^verbatim>\<open>text\<close>/\<^verbatim>\<open>chart\<close> key), \<open>createMessage\<close> followed by \<open>getMessages\<close> for its
  session returns a list that holds the created message with the content,
  type and response data passed in, whichever backend served the write,
  provided the read is served by that backend and the backend kept the
  message: the local store when write and read are both served locally, its
  guard finds no similar record and the write takes effect; the remote
  service when it answers the write with the fields it was sent and lists
  the record it created when the session is read.
\<close>

theorem clientCreateMessage_getMessages_roundtrip:
  assumes "survivesStorage P (nm_responseData m)"
  shows "(writeServedLocally P config atWrite m \<and>
          readServedLocally config atRead (nm_sessionId m) \<and>
          storesLocally P i m st
            \<longrightarrow> (\<exists>x \<in> set (clientGetMessages P config atRead (nm_sessionId m)
                     (snd (clientCreateMessage P config atWrite i now m st))).
                   m_id x = m_id (fst (clientCreateMessage P config atWrite i now m st)) \<and>
                   m_content x = nm_content m \<and> m_type x = nm_type m \<and>
                   m_responseData x = nm_responseData m)) \<and>
         (\<not> useFallback config \<and> remoteKeeps P atWrite atRead m
            \<longrightarrow> (\<exists>x \<in> set (clientGetMessages P config atRead (nm_sessionId m)
                     (snd (clientCreateMessage P config atWrite i now m st))).
                   m_id x = m_id (fst (clientCreateMessage P config atWrite i now m st)) \<and>
                   m_content x = nm_content m \<and> m_type x = nm_type m \<and>
                   m_responseData x = nm_responseData m))"
proof (intro conjI impI)
  assume a: "writeServedLocally P config atWrite m \<and>
          readServedLocally config atRead (nm_sessionId m) \<and> storesLocally P i m st"
  then have w: "clientCreateMessage P config atWrite i now m st = createMessage P i now m st"
    by (auto simp: writeServedLocally_def clientCreateMessage_def isl_def)
  from a have r: "clientGetMessages P config atRead (nm_sessionId m) st'
                    = getMessages P (nm_sessionId m) st'" for st'
    by (auto simp: readServedLocally_def clientGetMessages_def isl_def)
  from a have "storesLocally P i m st" by simp
  from local_roundtrip [OF this assms, of now]
  show "\<exists>x \<in> set (clientGetMessages P config atRead (nm_sessionId m)
                     (snd (clientCreateMessage P config atWrite i now m st))).
           m_id x = m_id (fst (clientCreateMessage P config atWrite i now m st)) \<and>
           m_content x = nm_content m \<and> m_type x = nm_type m \<and>
           m_responseData x = nm_responseData m"
    by (simp add: w r)
next
  assume "\<not> useFallback config \<and> remoteKeeps P atWrite atRead m"
  then show "\<exists>x \<in> set (clientGetMessages P config atRead (nm_sessionId m)
                     (snd (clientCreateMessage P config atWrite i now m st))).
           m_id x = m_id (fst (clientCreateMessage P config atWrite i now m st)) \<and>
           m_content x = nm_content m \<and> m_type x = nm_type m \<and>
           m_responseData x = nm_responseData m"
    using remote_roundtrip [OF _ _ assms] by blast
qed

theorem clientCreateMessage_getMessages_roundtrip_witness:
  "survivesStorage (samplePlatform [])
     (Some \<lparr>rd_type = RText, rd_content = JStr ''Hi'',
            rd_metadata = JObj [(''source'', JStr ''workflow'')]\<rparr>) \<and>
   writeServedLocally (samplePlatform [])
     \<lparr>mc_baseUrl = ''https://mockapi.io/api/v1'', mc_projectId = ''your-project-id''\<rparr>
     \<lparr>post_message = (\<lambda>b. Inl (MockAPIError ''Network error'' None)),
       get_messages = (\<lambda>s. Inl (MockAPIError ''Network error'' None))\<rparr>
     \<lparr>nm_sessionId = ''s1'', nm_content = [], nm_type = Assistant, nm_timestamp = 5,
       nm_responseData = Some \<lparr>rd_type = RText, rd_content = JStr ''Hi'',
                                rd_metadata = JObj [(''source'', JStr ''workflow'')]\<rparr>\<rparr> \<and>
   readServedLocally
     \<lparr>mc_baseUrl = ''https://mockapi.io/api/v1'', mc_projectId = ''your-project-id''\<rparr>
     \<lparr>post_message = (\<lambda>b :: int mockapi_message. Inl (MockAPIError ''Network error'' None)),
       get_messages = (\<lambda>s. Inl (MockAPIError ''Network error'' None))\<rparr> ''s1'' \<and>
   storesLocally (samplePlatform []) ''m1''
     \<lparr>nm_sessionId = ''s1'', nm_content = [], nm_type = Assistant, nm_timestamp = 5,
       nm_responseData = Some \<lparr>rd_type = RText, rd_content = JStr ''Hi'',
                                rd_metadata = JObj [(''source'', JStr ''workflow'')]\<rparr>\<rparr>
     (browserStorage [] []) \<and>
   (\<exists>x \<in> set (clientGetMessages (samplePlatform [])
        \<lparr>mc_baseUrl = ''https://mockapi.io/api/v1'', mc_projectId = ''your-project-id''\<rparr>
        \<lparr>post_message = (\<lambda>b. Inl (MockAPIError ''Network error'' None)),
          get_messages = (\<lambda>s. Inl (MockAPIError ''Network error'' None))\<rparr>
        ''s1''
        (snd (clientCreateMessage (samplePlatform [])
           \<lparr>mc_baseUrl = ''https://mockapi.io/api/v1'', mc_projectId = ''your-project-id''\<rparr>
           \<lparr>post_message = (\<lambda>b. Inl (MockAPIError ''Network error'' None)),
             get_messages = (\<lambda>s. Inl (MockAPIError ''Network error'' None))\<rparr>
           ''m1'' 7
           \<lparr>nm_sessionId = ''s1'', nm_content = [], nm_type = Assistant, nm_timestamp = 5,
             nm_responseData = Some \<lparr>rd_type = RText, rd_content = JStr ''Hi'',
                rd_metadata = JObj [(''source'', JStr ''workflow'')]\<rparr>\<rparr>
           (browserStorage [] [])))).
      m_content x = [] \<and> m_type x = Assistant \<and>
      m_responseData x = Some \<lparr>rd_type = RText, rd_content = JStr ''Hi'',
                                rd_metadata = JObj [(''source'', JStr ''workflow'')]\<rparr>) \<and>
   \<not> useFallback \<lparr>mc_baseUrl = ''https://abc.mockapi.io/api/v1'', mc_projectId = ''p1''\<rparr> \<and>
   remoteKeeps (samplePlatform [])
     \<lparr>post_message = (\<lambda>b. Inr (b\<lparr>sm_id := ''r1''\<rparr>)),
       get_messages = (\<lambda>s. Inl (MockAPIError ''Network error'' None))\<rparr>
     \<lparr>post_message = (\<lambda>b. Inl (MockAPIError ''Network error'' None)),
       get_messages = (\<lambda>s. Inr [\<lparr>sm_id = ''r1'', sm_sessionId = ''s1'', sm_content = [],
          sm_type = Assistant, sm_timestamp = 5, sm_responseType = Some RText,
          sm_responseContent = JStr ''Hi'',
          sm_responseMetadata = JObj [(''source'', JStr ''workflow'')]\<rparr>])\<rparr>
     \<lparr>nm_sessionId = ''s1'', nm_content = [], nm_type = Assistant, nm_timestamp = 5,
       nm_responseData = Some \<lparr>rd_type = RText, rd_content = JStr ''Hi'',
                                rd_metadata = JObj [(''source'', JStr ''workflow'')]\<rparr>\<rparr> \<and>
   (\<exists>x \<in> set (clientGetMessages (samplePlatform [])
        \<lparr>mc_baseUrl = ''https://abc.mockapi.io/api/v1'', mc_projectId = ''p1''\<rparr>
        \<lparr>post_message = (\<lambda>b. Inl (MockAPIError ''Network error'' None)),
          get_messages = (\<lambda>s. Inr [\<lparr>sm_id = ''r1'', sm_sessionId = ''s1'', sm_content = [],
             sm_type = Assistant, sm_timestamp = 5, sm_responseType = Some RText,
             sm_responseContent = JStr ''Hi'',
             sm_responseMetadata = JObj [(''source'', JStr ''workflow'')]\<rparr>])\<rparr>
        ''s1''
        (snd (clientCreateMessage (samplePlatform [])
           \<lparr>mc_baseUrl = ''https://abc.mockapi.io/api/v1'', mc_projectId = ''p1''\<rparr>
           \<lparr>post_message = (\<lambda>b. Inr (b\<lparr>sm_id := ''r1''\<rparr>)),
             get_messages = (\<lambda>s. Inl (MockAPIError ''Network error'' None))\<rparr>
           ''m1'' 7
           \<lparr>nm_sessionId = ''s1'', nm_content = [], nm_type = Assistant, nm_timestamp = 5,
             nm_responseData = Some \<lparr>rd_type = RText, rd_content = JStr ''Hi'',
                rd_metadata = JObj [(''source'', JStr ''workflow'')]\<rparr>\<rparr>
           (browserStorage [] [])))).
      m_content x = [] \<and> m_type x = Assistant \<and>
      m_responseData x = Some \<lparr>rd_type = RText, rd_content = JStr ''Hi'',
                                rd_metadata = JObj [(''source'', JStr ''workflow'')]\<rparr>)"
proof -
  let ?P = "samplePlatform []"
  let ?m = "\<lparr>nm_sessionId = ''s1'', nm_content = [], nm_type = Assistant, nm_timestamp = 5,
       nm_responseData = Some \<lparr>rd_type = RText, rd_content = JStr ''Hi'',
                                rd_metadata = JObj [(''source'', JStr ''workflow'') :: string \<times> int jsval]\<rparr>\<rparr>"
  let ?cl = "\<lparr>mc_baseUrl = ''https://mockapi.io/api/v1'', mc_projectId = ''your-project-id''\<rparr>"
  let ?cr = "\<lparr>mc_baseUrl = ''https://abc.mockapi.io/api/v1'', mc_projectId = ''p1''\<rparr>"
  let ?down = "\<lparr>post_message = (\<lambda>b :: int mockapi_message. Inl (MockAPIError ''Network error'' None)),
       get_messages = (\<lambda>s. Inl (MockAPIError ''Network error'' None))\<rparr>"
  let ?w = "\<lparr>post_message = (\<lambda>b :: int mockapi_message. Inr (b\<lparr>sm_id := ''r1''\<rparr>)),
       get_messages = (\<lambda>s. Inl (MockAPIError ''Network error'' None))\<rparr>"
  let ?r = "\<lparr>post_message = (\<lambda>b :: int mockapi_message. Inl (MockAPIError ''Network error'' None)),
       get_messages = (\<lambda>s. Inr [\<lparr>sm_id = ''r1'', sm_sessionId = ''s1'', sm_content = [],
          sm_type = Assistant, sm_timestamp = 5, sm_responseType = Some RText,
          sm_responseContent = JStr ''Hi'',
          sm_responseMetadata = JObj [(''source'', JStr ''workflow'')]\<rparr>])\<rparr>"
  let ?st = "browserStorage [] [] :: int storage"
  have s: "survivesStorage ?P (nm_responseData ?m)"
    by (simp add: survivesStorage_def storedAsMixed_def)
  have l1: "writeServedLocally ?P ?cl ?down ?m"
    by (simp add: writeServedLocally_def postBody_def)
  have l2: "readServedLocally ?cl ?down (nm_sessionId ?m)"
    by (simp add: readServedLocally_def)
  have l3: "storesLocally ?P ''m1'' ?m ?st"
    by (simp add: storesLocally_def browserStorage_def storedMessages_def)
  have r1: "\<not> useFallback ?cr"
    by (simp add: useFallback_def)
  have r2: "remoteKeeps ?P ?w ?r ?m"
    by (simp add: remoteKeeps_def postBody_def serializeMessage_def messageData_def)
  note t = clientCreateMessage_getMessages_roundtrip [OF s]
  from t [where config = ?cl and atWrite = ?down and atRead = ?down and i = "''m1''"
             and st = ?st and now = 7] l1 l2 l3
  obtain x where x: "x \<in> set (clientGetMessages ?P ?cl ?down ''s1''
        (snd (clientCreateMessage ?P ?cl ?down ''m1'' 7 ?m ?st)))"
    "m_content x = [] \<and> m_type x = Assistant \<and> m_responseData x = nm_responseData ?m"
    by auto
  from t [where config = ?cr and atWrite = ?w and atRead = ?r and i = "''m1''"
             and st = ?st and now = 7] r1 r2
  obtain y where y: "y \<in> set (clientGetMessages ?P ?cr ?r ''s1''
        (snd (clientCreateMessage ?P ?cr ?w ''m1'' 7 ?m ?st)))"
    "m_content y = [] \<and> m_type y = Assistant \<and> m_responseData y = nm_responseData ?m"
    by auto
  have a: "\<exists>x \<in> set (clientGetMessages ?P ?cl ?down ''s1''
        (snd (clientCreateMessage ?P ?cl ?down ''m1'' 7 ?m ?st))).
      m_content x = [] \<and> m_type x = Assistant \<and> m_responseData x = nm_responseData ?m"
    using x by blast
  have b: "\<exists>x \<in> set (clientGetMessages ?P ?cr ?r ''s1''
        (snd (clientCreateMessage ?P ?cr ?w ''m1'' 7 ?m ?st))).
      m_content x = [] \<and> m_type x = Assistant \<and> m_responseData x = nm_responseData ?m"
    using y by blast
  from s l1 l2 l3 a r1 r2 b show ?thesis
    by simp
qed

text \<open>
  C2 (as stated) fails, in four ways. A message whose response data is of
  type json with the content \<^verbatim>\<open>{"text": "hi"}\<close> is read back, here from the local
  store, with the type mixed and the content wrapped in an array. The metadata the
  normalizer attaches by default holds its time stamp as a \<^verbatim>\<open>Date\<close>, which is
  read back as a string. A write that the fallback served, the remote
  service being down, is missing from a read that the remote service
  serves. And a write that \<^verbatim>\<open>localStorage\<close> refuses is reported as saved and is
  missing from every later read.
\<close>

theorem clientCreateMessage_getMessages_counterexample:
  "map m_responseData
     (clientGetMessages (samplePlatform [])
        \<lparr>mc_baseUrl = ''https://mockapi.io/api/v1'', mc_projectId = ''your-project-id''\<rparr>
        \<lparr>post_message = (\<lambda>b. Inl (MockAPIError ''Network error'' None)),
          get_messages = (\<lambda>s. Inl (MockAPIError ''Network error'' None))\<rparr>
        ''s1''
        (snd (clientCreateMessage (samplePlatform [])
           \<lparr>mc_baseUrl = ''https://mockapi.io/api/v1'', mc_projectId = ''your-project-id''\<rparr>
           \<lparr>post_message = (\<lambda>b. Inl (MockAPIError ''Network error'' None)),
             get_messages = (\<lambda>s. Inl (MockAPIError ''Network error'' None))\<rparr>
           ''m1'' 7
           \<lparr>nm_sessionId = ''s1'', nm_content = [], nm_type = Assistant, nm_timestamp = 5,
             nm_responseData = Some \<lparr>rd_type = RJson,
                                      rd_content = JObj [(''text'', JStr ''hi'')],
                                      rd_metadata = JUndefined\<rparr>\<rparr>
           (browserStorage [] []))))
   = [Some \<lparr>rd_type = RMixed, rd_content = JArr [JObj [(''text'', JStr ''hi'')]],
             rd_metadata = JUndefined\<rparr>] \<and>
   map m_responseData
     (clientGetMessages (samplePlatform [])
        \<lparr>mc_baseUrl = ''https://mockapi.io/api/v1'', mc_projectId = ''your-project-id''\<rparr>
        \<lparr>post_message = (\<lambda>b. Inl (MockAPIError ''Network error'' None)),
          get_messages = (\<lambda>s. Inl (MockAPIError ''Network error'' None))\<rparr>
        ''s1''
        (snd (clientCreateMessage (samplePlatform [])
           \<lparr>mc_baseUrl = ''https://mockapi.io/api/v1'', mc_projectId = ''your-project-id''\<rparr>
           \<lparr>post_message = (\<lambda>b. Inl (MockAPIError ''Network error'' None)),
             get_messages = (\<lambda>s. Inl (MockAPIError ''Network error'' None))\<rparr>
           ''m1'' 7
           \<lparr>nm_sessionId = ''s1'', nm_content = [], nm_type = Assistant, nm_timestamp = 5,
             nm_responseData = Some \<lparr>rd_type = RText, rd_content = JStr ''Hi'',
                                      rd_metadata = metadataValue (Stamp 5)\<rparr>\<rparr>
           (browserStorage [] []))))
   = [Some \<lparr>rd_type = RText, rd_content = JStr ''Hi'',
             rd_metadata = JObj [(''timestamp'', JStr ''1970-01-01T00:00:00.005Z'')]\<rparr>] \<and>
   metadataValue (Stamp 5) = (JObj [(''timestamp'', JDate 5)] :: int jsval) \<and>
   clientGetMessages (samplePlatform [])
     \<lparr>mc_baseUrl = ''https://abc.mockapi.io/api/v1'', mc_projectId = ''p1''\<rparr>
     \<lparr>post_message = (\<lambda>b. Inl (MockAPIError ''Network error'' None)),
       get_messages = (\<lambda>s. Inr [])\<rparr>
     ''s1''
     (snd (clientCreateMessage (samplePlatform [])
        \<lparr>mc_baseUrl = ''https://abc.mockapi.io/api/v1'', mc_projectId = ''p1''\<rparr>
        \<lparr>post_message = (\<lambda>b. Inl (MockAPIError ''Network error'' None)),
          get_messages = (\<lambda>s. Inl (MockAPIError ''Network error'' None))\<rparr>
        ''m1'' 7
        \<lparr>nm_sessionId = ''s1'', nm_content = ''Hello'', nm_type = User, nm_timestamp = 5,
          nm_responseData = None\<rparr>
        (browserStorage [] [])))
   = [] \<and>
   m_id (fst (clientCreateMessage (samplePlatform [])
        \<lparr>mc_baseUrl = ''https://mockapi.io/api/v1'', mc_projectId = ''your-project-id''\<rparr>
        \<lparr>post_message = (\<lambda>b. Inl (MockAPIError ''Network error'' None)),
          get_messages = (\<lambda>s. Inl (MockAPIError ''Network error'' None))\<rparr>
        ''m1'' 7
        \<lparr>nm_sessionId = ''s1'', nm_content = ''Hello'', nm_type = User, nm_timestamp = 5,
          nm_responseData = None\<rparr>
        ((browserStorage [] []) \<lparr>accepts_messages := (\<lambda>ms. False)\<rparr>))) = ''m1'' \<and>
   clientGetMessages (samplePlatform [])
     \<lparr>mc_baseUrl = ''https://mockapi.io/api/v1'', mc_projectId = ''your-project-id''\<rparr>
     \<lparr>post_message = (\<lambda>b. Inl (MockAPIError ''Network error'' None)),
       get_messages = (\<lambda>s. Inl (MockAPIError ''Network error'' None))\<rparr>
     ''s1''
     (snd (clientCreateMessage (samplePlatform [])
        \<lparr>mc_baseUrl = ''https://mockapi.io/api/v1'', mc_projectId = ''your-project-id''\<rparr>
        \<lparr>post_message = (\<lambda>b. Inl (MockAPIError ''Network error'' None)),
          get_messages = (\<lambda>s. Inl (MockAPIError ''Network error'' None))\<rparr>
        ''m1'' 7
        \<lparr>nm_sessionId = ''s1'', nm_content = ''Hello'', nm_type = User, nm_timestamp = 5,
          nm_responseData = None\<rparr>
        ((browserStorage [] []) \<lparr>accepts_messages := (\<lambda>ms. False)\<rparr>)))
   = ([] :: int message list)"
  by code_simp

text \<open>
  C6 (as the code has it). Two calls with the same session, content and type
  and times less than a second apart, the first of which stores its message
  (its guard finds no similar record and the write takes effect): the second
  call leaves the store as it is and returns a stored record that passes the
  guard's test, so the two calls together add one record.
\<close>

theorem createMessage_twice_stores_once:
  assumes "nm_sessionId m2 = nm_sessionId m1" "nm_content m2 = nm_content m1"
      "nm_type m2 = nm_type m1" "\<bar>nm_timestamp m1 - nm_timestamp m2\<bar> < 1000"
      "storesLocally P id1 m1 st"
      "createMessage P id1 now1 m1 st = (r1, st1)"
      "createMessage P id2 now2 m2 st1 = (r2, st2)"
  shows "st2 = st1 \<and>
         length (storedMessages st2) = length (storedMessages st) + 1 \<and>
         (\<exists>e \<in> set (storedMessages st1). similarMessage m2 e \<and> r2 = transformMessage P e)"
proof -
  let ?d = "messageData id1 m1"
  have ms1: "storedMessages st1 = map (serializeMessage P) (storedMessages st @ [?d])"
    using createMessage_insert(1) [OF assms(5), of now1] assms(6) by simp
  have "similarMessage m2 (serializeMessage P ?d)"
    using assms(1-4)
    by (simp add: similarMessage_def serializeMessage_def messageData_def abs_minus_commute)
  moreover have "serializeMessage P ?d \<in> set (storedMessages st1)"
    by (simp add: ms1)
  ultimately have "find (similarMessage m2) (storedMessages st1) \<noteq> None"
    by (auto simp: find_None_iff)
  then obtain e where e: "find (similarMessage m2) (storedMessages st1) = Some e"
    by auto
  then have e2: "e \<in> set (storedMessages st1) \<and> similarMessage m2 e"
    by (auto simp: find_Some_iff)
  from e assms(7) have "st2 = st1" "r2 = transformMessage P e"
    by (auto simp: createMessage_def Let_def)
  then show ?thesis using e2 ms1 by auto
qed

theorem createMessage_twice_stores_once_witness:
  "\<bar>nm_timestamp \<lparr>nm_sessionId = ''s1'', nm_content = ''Hello'', nm_type = User,
        nm_timestamp = 900, nm_responseData = (None :: int response_data option)\<rparr>
    - nm_timestamp \<lparr>nm_sessionId = ''s1'', nm_content = ''Hello'', nm_type = User,
        nm_timestamp = 1800, nm_responseData = (None :: int response_data option)\<rparr>\<bar> < 1000 \<and>
   storesLocally (samplePlatform []) ''id1''
     \<lparr>nm_sessionId = ''s1'', nm_content = ''Hello'', nm_type = User,
        nm_timestamp = 900, nm_responseData = None\<rparr>
     (browserStorage [] []) \<and>
   length (storedMessages (snd
     (createMessage (samplePlatform []) ''id2'' 1800
        \<lparr>nm_sessionId = ''s1'', nm_content = ''Hello'', nm_type = User,
          nm_timestamp = 1800, nm_responseData = None\<rparr>
        (snd (createMessage (samplePlatform []) ''id1'' 900
           \<lparr>nm_sessionId = ''s1'', nm_content = ''Hello'', nm_type = User,
             nm_timestamp = 900, nm_responseData = None\<rparr>
           (browserStorage [] [])))))) = 1"
proof -
  let ?m1 = "\<lparr>nm_sessionId = ''s1'', nm_content = ''Hello'', nm_type = User,
        nm_timestamp = 900, nm_responseData = (None :: int response_data option)\<rparr>"
  let ?m2 = "\<lparr>nm_sessionId = ''s1'', nm_content = ''Hello'', nm_type = User,
        nm_timestamp = 1800, nm_responseData = (None :: int response_data option)\<rparr>"
  let ?st = "browserStorage [] [] :: int storage"
  let ?c1 = "createMessage (samplePlatform []) ''id1'' 900 ?m1 ?st"
  let ?c2 = "createMessage (samplePlatform []) ''id2'' 1800 ?m2 (snd ?c1)"
  have h4: "\<bar>nm_timestamp ?m1 - nm_timestamp ?m2\<bar> < 1000" by simp
  have h5: "storesLocally (samplePlatform []) ''id1'' ?m1 ?st"
    by (simp add: storesLocally_def browserStorage_def storedMessages_def)
  have both: "snd ?c2 = snd ?c1 \<and>
         length (storedMessages (snd ?c2)) = length (storedMessages ?st) + 1 \<and>
         (\<exists>e \<in> set (storedMessages (snd ?c1)).
            similarMessage ?m2 e \<and> fst ?c2 = transformMessage (samplePlatform []) e)"
    by (rule createMessage_twice_stores_once
               [of ?m2 ?m1 "samplePlatform []" "''id1''" ?st 900 "fst ?c1" "snd ?c1"
                   "''id2''" 1800 "fst ?c2" "snd ?c2", OF _ _ _ h4 h5])
       simp_all
  have "length (storedMessages (snd ?c2)) = length (storedMessages ?st) + 1"
    by (rule both [THEN conjunct2, THEN conjunct1])
  then have "length (storedMessages (snd ?c2)) = 1"
    by (simp add: browserStorage_def storedMessages_def)
  with h4 h5 show ?thesis
    by (intro conjI)
qed

text \<open>
  C6 (as stated) fails when the first call of the pair is itself suppressed:
  with a record of time 0 in the store, a call at 900 ms returns that record
  and stores nothing, and the call at 1800 ms, less than a second after it,
  finds no stored record within a second of its own time and inserts a
  second record.
\<close>

theorem createMessage_twice_counterexample:
  "map sm_id (storedMessages (snd
     (createMessage (samplePlatform []) ''id2'' 1800
        \<lparr>nm_sessionId = ''s1'', nm_content = ''Hello'', nm_type = User,
          nm_timestamp = 1800, nm_responseData = None\<rparr>
        (snd (createMessage (samplePlatform []) ''id1'' 900
           \<lparr>nm_sessionId = ''s1'', nm_content = ''Hello'', nm_type = User,
             nm_timestamp = 900, nm_responseData = None\<rparr>
           (browserStorage []
             [\<lparr>sm_id = ''e'', sm_sessionId = ''s1'', sm_content = ''Hello'',
               sm_type = User, sm_timestamp = 0, sm_responseType = None,
               sm_responseContent = JUndefined, sm_responseMetadata = JUndefined\<rparr>]))))))
   = [''e'', ''id2''] \<and>
   m_id (fst
     (createMessage (samplePlatform []) ''id2'' 1800
        \<lparr>nm_sessionId = ''s1'', nm_content = ''Hello'', nm_type = User,
          nm_timestamp = 1800, nm_responseData = None\<rparr>
        (snd (createMessage (samplePlatform []) ''id1'' 900
           \<lparr>nm_sessionId = ''s1'', nm_content = ''Hello'', nm_type = User,
             nm_timestamp = 900, nm_responseData = None\<rparr>
           (browserStorage []
             [\<lparr>sm_id = ''e'', sm_sessionId = ''s1'', sm_content = ''Hello'',
               sm_type = User, sm_timestamp = 0, sm_responseType = None,
               sm_responseContent = JUndefined, sm_responseMetadata = JUndefined\<rparr>])))))
   = ''id2''"
  by code_simp

text \<open>
  C10. For a message that is in the store (as the store holds it, that is,
  unchanged by the JSON round trip): after \<open>updateMessage\<close> the stored content
  is the old one whenever the update's content is missing or empty, the
  stored response type, content and metadata are the old ones whenever the
  update carries no response data or a falsy content or metadata, and the
  stored content is empty only if it was empty before.
\<close>

theorem updateMessage_keeps_on_falsy:
  assumes "findIndex (\<lambda>m. sm_id m = i) (storedMessages st) = Some k"
      and "serializeMessage P (storedMessages st ! k) = storedMessages st ! k"
  shows "\<exists>r st'. updateMessage P i u st = Inr (r, st') \<and>
           length (storedMessages st') = length (storedMessages st) \<and>
           (u_content u = None \<or> u_content u = Some [] \<longrightarrow>
              sm_content (storedMessages st' ! k) = sm_content (storedMessages st ! k)) \<and>
           (u_responseData u = None \<longrightarrow>
              sm_responseType (storedMessages st' ! k) = sm_responseType (storedMessages st ! k)) \<and>
           ((case u_responseData u of None \<Rightarrow> True | Some rd \<Rightarrow> \<not> truthy P (rd_content rd)) \<longrightarrow>
              sm_responseContent (storedMessages st' ! k)
                = sm_responseContent (storedMessages st ! k)) \<and>
           ((case u_responseData u of None \<Rightarrow> True | Some rd \<Rightarrow> \<not> truthy P (rd_metadata rd)) \<longrightarrow>
              sm_responseMetadata (storedMessages st' ! k)
                = sm_responseMetadata (storedMessages st ! k)) \<and>
           (sm_content (storedMessages st' ! k) = [] \<longrightarrow> sm_content (storedMessages st ! k) = [])"
proof -
  from findIndex_Some [OF assms(1)] have k: "k < length (storedMessages st)"
    by simp
  then have w: "window_defined st" and sm: "storedMessages st = chat_messages st"
    by (auto simp: storedMessages_def split: if_splits)
  have ser: "sm_responseContent (serializeMessage P m) = jsonRoundTrip P (sm_responseContent m) \<and>
             sm_responseMetadata (serializeMessage P m) = jsonRoundTrip P (sm_responseMetadata m)"
    for m :: "'a mockapi_message"
    by (simp add: serializeMessage_def)
  have rc: "jsonRoundTrip P (sm_responseContent (chat_messages st ! k))
              = sm_responseContent (chat_messages st ! k)"
    using ser [of "chat_messages st ! k"] assms(2) by (simp add: sm)
  have rm: "jsonRoundTrip P (sm_responseMetadata (chat_messages st ! k))
              = sm_responseMetadata (chat_messages st ! k)"
    using ser [of "chat_messages st ! k"] assms(2) by (simp add: sm)
  show ?thesis
    using k rc rm w assms(1)
    by (auto simp: updateMessage_def sm Let_def setMessages_def serializeMessage_def
                   storedMessages_def jsOr_def split: option.splits)
qed

theorem updateMessage_keeps_on_falsy_witness:
  "findIndex (\<lambda>m. sm_id m = ''m1'')
     (storedMessages (browserStorage []
        [\<lparr>sm_id = ''m1'', sm_sessionId = ''s1'', sm_content = ''Hello'',
          sm_type = User, sm_timestamp = 0, sm_responseType = None,
          sm_responseContent = JUndefined, sm_responseMetadata = (JUndefined :: int jsval)\<rparr>]))
     = Some 0 \<and>
   (\<exists>r st'. updateMessage (samplePlatform []) ''m1''
              \<lparr>u_content = Some [], u_responseData = None\<rparr>
              (browserStorage []
                [\<lparr>sm_id = ''m1'', sm_sessionId = ''s1'', sm_content = ''Hello'',
                  sm_type = User, sm_timestamp = 0, sm_responseType = None,
                  sm_responseContent = JUndefined, sm_responseMetadata = JUndefined\<rparr>])
              = Inr (r, st') \<and>
            sm_content (storedMessages st' ! 0) = ''Hello'')"
proof -
  let ?st = "browserStorage []
        [\<lparr>sm_id = ''m1'', sm_sessionId = ''s1'', sm_content = ''Hello'',
          sm_type = User, sm_timestamp = 0, sm_responseType = None,
          sm_responseContent = JUndefined, sm_responseMetadata = (JUndefined :: int jsval)\<rparr>]"
  let ?u = "\<lparr>u_content = Some [], u_responseData = (None :: int response_data option)\<rparr>"
  have h1: "findIndex (\<lambda>m. sm_id m = ''m1'') (storedMessages ?st) = Some 0"
    by (simp add: browserStorage_def storedMessages_def)
  have h2: "serializeMessage (samplePlatform []) (storedMessages ?st ! 0) = storedMessages ?st ! 0"
    by (simp add: serializeMessage_def browserStorage_def storedMessages_def)
  from updateMessage_keeps_on_falsy [OF h1 h2, of ?u]
  obtain r st' where "updateMessage (samplePlatform []) ''m1'' ?u ?st = Inr (r, st')"
    and "sm_content (storedMessages st' ! 0) = sm_content (storedMessages ?st ! 0)"
    by auto
  then show ?thesis using h1 by (auto simp: browserStorage_def storedMessages_def)
qed

section \<open>Theorems: the chart adapter\<close>

lemma includesStr_chartTypes:
  "includesStr chartTypes v \<Longrightarrow> \<exists>t. v = JStr t \<and> t \<in> set chartTypes \<and> t \<noteq> []"
  by (cases v) (auto simp: chartTypes_def)

lemma chartDataArray_nullish:
  "isNullish raw \<Longrightarrow> chartDataArray P t raw = Inr None"
  by (auto simp: chartDataArray_def isNullish_def optProp_def Let_def)

lemma chartDataArray_empty:
  "chartDataArray P t (JArr []) = Inr (Some (JArr []))"
  by (simp add: chartDataArray_def isNullish_def optProp_def Let_def)

text \<open>
  C4 (as the code has it). \<open>transformChartData\<close> returns null, without
  throwing, whenever the type is missing or not one of the five chart types,
  and whenever the data field is missing or null. For a chart type among the
  five and data the empty array it returns, without throwing, a chart model
  whose data is the empty array; the emptiness is refused one step later, by
  the chart renderer's \<open>validateChartData\<close>.
\<close>

theorem transformChartData_rejects:
  "(\<not> (truthy P (getProp c ''type'') \<and> includesStr chartTypes (getProp c ''type''))
      \<longrightarrow> transformChartData P c = Inr None) \<and>
   (isNullish (getProp c ''data'') \<longrightarrow> transformChartData P c = Inr None) \<and>
   (truthy P c \<and> typeofObject c \<and> includesStr chartTypes (getProp c ''type'') \<and>
    getProp c ''data'' = JArr []
      \<longrightarrow> (\<exists>m. transformChartData P c = Inr (Some m) \<and> cd_data m = JArr [] \<and>
               validateChartData m = Some ''Chart data must be a non-empty array''))"
proof (intro conjI impI)
  assume "\<not> (truthy P (getProp c ''type'') \<and> includesStr chartTypes (getProp c ''type''))"
  then show "transformChartData P c = Inr None"
    by (auto simp: transformChartData_def Let_def)
next
  assume n: "isNullish (getProp c ''data'')"
  show "transformChartData P c = Inr None"
  proof (cases "includesStr chartTypes (getProp c ''type'')")
    case True
    then obtain t where "getProp c ''type'' = JStr t"
      using includesStr_chartTypes by blast
    then show ?thesis
      using n by (simp add: transformChartData_def Let_def chartDataArray_nullish)
  next
    case False
    then show ?thesis
      by (auto simp: transformChartData_def Let_def)
  qed
next
  assume a: "truthy P c \<and> typeofObject c \<and> includesStr chartTypes (getProp c ''type'') \<and>
    getProp c ''data'' = JArr []"
  then obtain t where t: "getProp c ''type'' = JStr t" "t \<in> set chartTypes" "t \<noteq> []"
    using includesStr_chartTypes by blast
  show "\<exists>m. transformChartData P c = Inr (Some m) \<and> cd_data m = JArr [] \<and>
               validateChartData m = Some ''Chart data must be a non-empty array''"
    using a t
    by (simp add: transformChartData_def Let_def chartDataArray_empty validateChartData_def)
qed

theorem transformChartData_rejects_witness:
  "\<not> (truthy (samplePlatform []) (getProp (JObj [(''type'', JStr ''radar''), (''data'', JArr [])]) ''type'') \<and>
       includesStr chartTypes (getProp (JObj [(''type'', JStr ''radar''), (''data'', JArr [])] :: int jsval) ''type'')) \<and>
   transformChartData (samplePlatform []) (JObj [(''type'', JStr ''radar''), (''data'', JArr [])])
     = Inr None \<and>
   isNullish (getProp (JObj [(''type'', JStr ''pie'')] :: int jsval) ''data'') \<and>
   transformChartData (samplePlatform []) (JObj [(''type'', JStr ''pie'')]) = Inr None \<and>
   (\<exists>m. transformChartData (samplePlatform [])
          (JObj [(''type'', JStr ''pie''), (''data'', JArr [])]) = Inr (Some m) \<and>
        cd_data m = JArr [] \<and>
        validateChartData m = Some ''Chart data must be a non-empty array'')"
proof -
  let ?c1 = "JObj [(''type'', JStr ''radar''), (''data'', JArr [])] :: int jsval"
  let ?c2 = "JObj [(''type'', JStr ''pie'')] :: int jsval"
  let ?c3 = "JObj [(''type'', JStr ''pie''), (''data'', JArr [])] :: int jsval"
  have h1: "\<not> (truthy (samplePlatform []) (getProp ?c1 ''type'') \<and>
              includesStr chartTypes (getProp ?c1 ''type''))"
    by (simp add: chartTypes_def)
  have h2: "isNullish (getProp ?c2 ''data'')"
    by (simp add: isNullish_def)
  have h3: "truthy (samplePlatform []) ?c3 \<and> typeofObject ?c3 \<and>
            includesStr chartTypes (getProp ?c3 ''type'') \<and> getProp ?c3 ''data'' = JArr []"
    by (simp add: chartTypes_def)
  from transformChartData_rejects [of "samplePlatform []" ?c1] h1
  have r1: "transformChartData (samplePlatform []) ?c1 = Inr None"
    by blast
  from transformChartData_rejects [of "samplePlatform []" ?c2] h2
  have r2: "transformChartData (samplePlatform []) ?c2 = Inr None"
    by blast
  from transformChartData_rejects [of "samplePlatform []" ?c3] h3
  have r3: "\<exists>m. transformChartData (samplePlatform []) ?c3 = Inr (Some m) \<and>
        cd_data m = JArr [] \<and>
        validateChartData m = Some ''Chart data must be a non-empty array''"
    by blast
  from h1 r1 h2 r2 r3 show ?thesis
    by (intro conjI)
qed

text \<open>
  C4 (as stated) fails: for \<^verbatim>\<open>{type: "pie", data: []}\<close> the adapter returns a
  chart model, not null.
\<close>

theorem transformChartData_empty_data_counterexample:
  "transformChartData (samplePlatform []) (JObj [(''type'', JStr ''pie''), (''data'', JArr [])])
   = Inr (Some \<lparr>cd_type = ''pie'', cd_title = JStr ''Pie Chart'', cd_data = JArr [],
                 cd_xKey = ''name'', cd_yKey = ''value'', cd_options = defaultChartOptions\<rparr>)"
  by code_simp

section \<open>Theorems: the mixed-content renderer\<close>

lemma text_not_chart: "startsWith k ''text'' \<Longrightarrow> \<not> startsWith k ''chart''"
  by (cases k) (auto simp: startsWith_def)

text \<open>Rounding keeps a positive integer positive, so a difference keeps its sign.\<close>

lemma bitLength_bound: "0 < n \<Longrightarrow> 2 ^ (bitLength n - 1) \<le> n"
proof (induction n rule: bitLength.induct)
  case (1 n)
  show ?case
  proof (cases "n div 2 \<le> 0")
    case True
    with 1(2) have "n = 1" by presburger
    then show ?thesis by (simp add: bitLength.simps [of 1] bitLength.simps [of 0])
  next
    case False
    with 1 have ih: "2 ^ (bitLength (n div 2) - 1) \<le> n div 2" by simp
    from False have "bitLength (n div 2) \<noteq> 0"
      by (simp add: bitLength.simps [of "n div 2"])
    then have "bitLength n - 1 = Suc (bitLength (n div 2) - 1)"
      using 1(2) by (simp add: bitLength.simps [of n])
    then have "(2::int) ^ (bitLength n - 1) = 2 * 2 ^ (bitLength (n div 2) - 1)"
      by simp
    also have "\<dots> \<le> 2 * (n div 2)" using ih by simp
    also have "\<dots> \<le> n" by presburger
    finally show ?thesis .
  qed
qed

lemma roundToSignificand_pos:
  assumes "0 < n"
  shows "0 < roundToSignificand n"
proof (cases "n < 2 ^ 53")
  case True
  with assms show ?thesis by (simp add: roundToSignificand_def)
next
  case False
  let ?u = "(2::int) ^ (bitLength n - 53)"
  have "?u \<le> 2 ^ (bitLength n - 1)"
    by (rule power_increasing) simp_all
  also have "\<dots> \<le> n" by (rule bitLength_bound [OF assms])
  finally have "?u \<le> n" .
  moreover have u: "0 < ?u" by simp
  ultimately have "0 < n div ?u"
    by (simp add: pos_imp_zdiv_pos_iff)
  then have "0 < n div ?u * ?u" "0 < (n div ?u + 1) * ?u"
    using u by (simp_all add: zero_less_mult_iff)
  then show ?thesis
    using False by (simp add: roundToSignificand_def Let_def)
qed

lemma roundToSignificand_zero: "roundToSignificand 0 = 0"
  by (simp add: roundToSignificand_def)

lemma numberDifference_pos: "0 < numberDifference a b \<longleftrightarrow> numberLess b a"
proof (cases a; cases b)
  fix x y assume ab: "a = Finite x" "b = Finite y"
  consider "y < x" | "y = x" | "x < y" by linarith
  then show ?thesis
  proof cases
    case 1
    then show ?thesis
      using ab roundToSignificand_pos [of "x - y"] by simp
  next
    case 2
    then show ?thesis
      using ab by (simp add: roundToSignificand_zero)
  next
    case 3
    then show ?thesis
      using ab roundToSignificand_pos [of "y - x"] by simp
  qed
qed simp_all

lemma numberLess_trans: "numberLess a b \<Longrightarrow> numberLess b c \<Longrightarrow> numberLess a c"
  by (cases a; cases b; cases c) simp_all

lemma numberLess_total: "a \<noteq> b \<Longrightarrow> \<not> numberLess a b \<Longrightarrow> numberLess b a"
  by (cases a; cases b) simp_all

text \<open>
  \<^verbatim>\<open>parseInt\<close> rounds: a key that ends in \<open>2^53 + 1\<close> has the number \<open>2^53\<close>, the
  number of the key that ends in \<open>2^53\<close>.
\<close>

lemma getNumber_rounds:
  "getNumber ''text9007199254740993'' = Finite 9007199254740992 \<and>
   getNumber ''chart9007199254740992'' = Finite 9007199254740992 \<and>
   getNumber ''text9007199254740995'' = Finite 9007199254740996 \<and>
   getNumber ''text007'' = Finite 7 \<and>
   getNumber ''text'' = Finite 0"
  by code_simp

lemma keyBefore_trans:
  assumes "textOrChartKey b" "keyBefore a b" "keyBefore b c"
  shows "keyBefore a c"
  using assms unfolding keyBefore_def textOrChartKey_def
  by (auto intro: numberLess_trans)

lemma compareKeys_pos:
  assumes "textOrChartKey x" "textOrChartKey y" "compareKeys P y x > 0"
  shows "keyBefore x y"
  using assms unfolding keyBefore_def textOrChartKey_def compareKeys_def Let_def
  by (auto simp: numberDifference_pos split: if_splits dest: text_not_chart)

lemma compareKeys_nonpos:
  assumes "textOrChartKey x" "textOrChartKey y" "\<not> compareKeys P y x > 0"
  shows "keyBefore y x"
  using assms unfolding keyBefore_def textOrChartKey_def compareKeys_def Let_def
  by (auto simp: numberDifference_pos split: if_splits dest: text_not_chart numberLess_total)

lemma set_insertRev: "set (insertRev cmp x ys) = insert x (set ys)"
  by (induction ys) auto

text \<open>Inserting a key keeps the reversed prefix in descending order.\<close>

lemma insertRev_sorted:
  assumes "textOrChartKey x" "\<forall>y \<in> set ys. textOrChartKey y"
      "sorted_wrt (\<lambda>a b. keyBefore b a) ys"
  shows "sorted_wrt (\<lambda>a b. keyBefore b a) (insertRev (compareKeys P) x ys)"
  using assms
proof (induction ys)
  case Nil
  then show ?case by simp
next
  case (Cons y ys)
  show ?case
  proof (cases "compareKeys P y x > 0")
    case True
    with Cons show ?thesis
      by (auto simp: set_insertRev intro: compareKeys_pos)
  next
    case False
    with Cons.prems have yx: "keyBefore y x"
      by (auto intro: compareKeys_nonpos)
    have "\<forall>z \<in> set ys. keyBefore z x"
      using Cons.prems yx by (auto intro: keyBefore_trans [of y])
    with False yx Cons.prems show ?thesis by auto
  qed
qed

lemma foldl_insertRev_sorted:
  assumes "\<forall>y \<in> set acc. textOrChartKey y" "\<forall>y \<in> set xs. textOrChartKey y"
      "sorted_wrt (\<lambda>a b. keyBefore b a) acc"
  shows "sorted_wrt (\<lambda>a b. keyBefore b a)
           (foldl (\<lambda>acc x. insertRev (compareKeys P) x acc) acc xs)"
  using assms
  by (induction xs arbitrary: acc) (auto simp: insertRev_sorted set_insertRev)

lemma sortedKeys_sorted:
  assumes "\<forall>k \<in> set (objectKeys item). textOrChartKey k"
  shows "sorted_wrt keyBefore (sortedKeys P item)"
proof -
  have "sorted_wrt (\<lambda>a b. keyBefore b a)
          (foldl (\<lambda>acc x. insertRev (compareKeys P) x acc) [] (objectKeys item))"
    using assms by (intro foldl_insertRev_sorted) auto
  then show ?thesis
    by (simp add: sortedKeys_def jsSort_def sorted_wrt_rev)
qed

lemma renderKeys_keys:
  "renderKeys P i item n keys = Inr fs \<Longrightarrow>
     map fragmentKey fs = filter (renderable P item) keys"
proof (induction keys arbitrary: n fs)
  case Nil
  then show ?case by simp
next
  case (Cons key keys)
  show ?case
  proof (cases "renderable P item key")
    case False
    with Cons show ?thesis
      by (auto simp: renderable_def Let_def)
  next
    case True
    with Cons.prems obtain f rest where
      "renderKeys P i item (n + 1) keys = Inr rest" "fs = f # rest" "fragmentKey f = key"
      by (auto simp: renderable_def Let_def thenE_def
               split: sum.splits option.splits if_splits dest: text_not_chart)
    with Cons.IH [of "n + 1" rest] True show ?thesis by simp
  qed
qed

text \<open>
  For an object all of whose keys start with \<^verbatim>\<open>text\<close> or \<^verbatim>\<open>chart\<close>, the fragments
  come out ordered by number, the number being the one the comparator reads
  off the key (from \<open>2^53\<close> on a rounded one), and, for equal numbers, text
  before chart, one fragment for each key that has a value of the right kind.
\<close>

theorem renderItem_sorted_when_only_text_chart_keys:
  assumes "\<forall>k \<in> set (map fst kvs). textOrChartKey k"
      and "renderItem P i (JObj kvs) = Inr fs"
  shows "sorted_wrt keyBefore (map fragmentKey fs) \<and>
         mset (map fragmentKey fs) = mset (filter (renderable P (JObj kvs)) (map fst kvs))"
proof -
  from assms(2) have r: "renderKeys P i (JObj kvs) 0 (sortedKeys P (JObj kvs)) = Inr fs"
    by (simp add: renderItem_def)
  have k: "map fragmentKey fs = filter (renderable P (JObj kvs)) (sortedKeys P (JObj kvs))"
    by (rule renderKeys_keys [OF r])
  have "sorted_wrt keyBefore (sortedKeys P (JObj kvs))"
    using assms(1) by (intro sortedKeys_sorted) simp
  then have "sorted_wrt keyBefore (map fragmentKey fs)"
    unfolding k by (rule sorted_wrt_filter)
  moreover have "mset (sortedKeys P (JObj kvs)) = mset (map fst kvs)"
    by (simp add: sortedKeys_def mset_jsSort)
  then have "mset (map fragmentKey fs) = mset (filter (renderable P (JObj kvs)) (map fst kvs))"
    unfolding k by (metis mset_filter)
  ultimately show ?thesis by simp
qed

text \<open>
  C7. The claim's example holds: the keys \<^verbatim>\<open>text2, chart1, text1\<close> are rendered
  in the order \<^verbatim>\<open>text1, chart1, text2\<close>. But keys that match neither prefix are
  not left out of the sort, and between them and the text and chart keys the
  comparator falls back to \<^verbatim>\<open>localeCompare\<close>, which makes it cyclic:
  \<^verbatim>\<open>text1\<close> before \<^verbatim>\<open>chart1\<close> by the rule, \<^verbatim>\<open>chart1\<close> before \<^verbatim>\<open>d1\<close> before \<^verbatim>\<open>e1\<close> before
  \<^verbatim>\<open>text1\<close> by spelling. An object with the keys \<^verbatim>\<open>chart1, d1, e1, text1\<close>, in
  that order, has every neighbouring pair in comparator order already and is
  left as it is, so the chart is rendered before the text of the same number.
\<close>

theorem mixedContentRenderer_foreign_keys_break_order:
  "map_sum id renderedKeys
     (mixedContentRenderer (samplePlatform [])
        (JArr [JObj [(''text2'', JStr ''c''), (''chart1'', JObj [(''type'', JStr ''bar''),
                  (''data'', JArr [JObj [(''name'', JStr ''a''), (''value'', JNum 1)]])]),
               (''text1'', JStr ''a'')]]))
     = Inr [''text1'', ''chart1'', ''text2''] \<and>
   map_sum id renderedKeys
     (mixedContentRenderer (samplePlatform [])
        (JArr [JObj [(''chart1'', JObj [(''type'', JStr ''bar''),
                  (''data'', JArr [JObj [(''name'', JStr ''a''), (''value'', JNum 1)]])]),
               (''d1'', JNum 0), (''e1'', JNum 0), (''text1'', JStr ''a'')]]))
     = Inr [''chart1'', ''text1'']"
  by code_simp

section \<open>Theorems: the chat state store\<close>

text \<open>The invariant holds initially and every step of the store keeps it.\<close>

lemma guardInvariant_start:
  "guardInvariant s \<Longrightarrow> guardInvariant (startSendMessage captured content now s)"
  by (auto simp: guardInvariant_def startSendMessage_def Let_def split: option.splits)

lemma guardInvariant_resume:
  assumes "guardInvariant s"
  shows "guardInvariant (resumeSendMessage k outcome now s)"
proof (cases "k < length (inflight s)")
  case False
  with assms show ?thesis by (simp add: resumeSendMessage_def)
next
  case True
  with assms have k: "k = 0" and one: "length (inflight s) = 1" and r: "sendingMessageRef s"
    by (auto simp: guardInvariant_def)
  show ?thesis
    using one r
    by (cases "task_phase (inflight s ! 0)"; cases outcome)
       (auto simp: resumeSendMessage_def k guardInvariant_def failSend_def Let_def)
qed

lemma guardInvariant_run:
  "guardInvariant s \<Longrightarrow> guardInvariant (storeRun events s)"
proof (induction events arbitrary: s)
  case Nil
  then show ?case by (simp add: storeRun_def)
next
  case (Cons e events)
  have "guardInvariant (storeStep e s)"
    using Cons.prems by (cases e) (auto intro: guardInvariant_start guardInvariant_resume)
  from Cons.IH [OF this] show ?case by (simp add: storeRun_def)
qed

lemma guardInvariant_initial: "guardInvariant (initialStore sessions)"
  by (simp add: guardInvariant_def initialStore_def)

text \<open>
  C9 (as the code has it). In any state the store reaches from its initial
  state, at most one invocation of \<open>sendMessage\<close> is in flight. While one is,
  a further call made with a session selected changes nothing: no message is
  handed to the persistence client, no error is stored, nothing is queued.
  When none is, a call with a session selected hands one user message to the
  persistence client, and a second call made before the first goes on adds
  none.
\<close>

theorem sendMessage_single_in_flight:
  assumes "s = storeRun events (initialStore sessions)"
  shows "length (inflight s) \<le> 1 \<and>
         (inflight s \<noteq> [] \<longrightarrow> startSendMessage (Some sessionId) content now s = s) \<and>
         (inflight s = [] \<longrightarrow>
            created (startSendMessage (Some sessionId') content' now'
                       (startSendMessage (Some sessionId) content now s))
              = created s @ [CreateMessage sessionId content User now None])"
proof -
  have inv: "guardInvariant s"
    unfolding assms by (rule guardInvariant_run [OF guardInvariant_initial])
  then show ?thesis
    by (auto simp: guardInvariant_def startSendMessage_def Let_def)
qed

theorem sendMessage_single_in_flight_witness:
  "inflight (storeRun [CallSendMessage (Some ''s1'') ''Hello'' 0]
              (initialStore [] :: int chat_store)) \<noteq> [] \<and>
   startSendMessage (Some ''s1'') ''Hello'' 1
     (storeRun [CallSendMessage (Some ''s1'') ''Hello'' 0] (initialStore [] :: int chat_store))
   = storeRun [CallSendMessage (Some ''s1'') ''Hello'' 0] (initialStore []) \<and>
   inflight (storeRun [] (initialStore [] :: int chat_store)) = [] \<and>
   created (startSendMessage (Some ''s1'') ''Hello'' 1
              (startSendMessage (Some ''s1'') ''Hello'' 0
                 (storeRun [] (initialStore [] :: int chat_store))))
   = [CreateMessage ''s1'' ''Hello'' User 0 None]"
proof -
  let ?s0 = "storeRun [] (initialStore [] :: int chat_store)"
  let ?s1 = "storeRun [CallSendMessage (Some ''s1'') ''Hello'' 0] (initialStore [] :: int chat_store)"
  have h1: "inflight ?s1 \<noteq> []"
    by (simp add: storeRun_def startSendMessage_def initialStore_def Let_def)
  have h0: "inflight ?s0 = []"
    by (simp add: storeRun_def initialStore_def)
  have c0: "created ?s0 = []"
    by (simp add: storeRun_def initialStore_def)
  from sendMessage_single_in_flight
         [OF refl, where events = "[CallSendMessage (Some ''s1'') ''Hello'' 0]"
            and sessions = "[]" and sessionId = "''s1''" and content = "''Hello''" and now = 1]
       h1
  have a: "startSendMessage (Some ''s1'') ''Hello'' 1 ?s1 = ?s1"
    by blast
  from sendMessage_single_in_flight
         [OF refl, where events = "[]" and sessions = "[]"
            and sessionId = "''s1''" and content = "''Hello''" and now = 0
            and sessionId' = "''s1''" and content' = "''Hello''" and now' = 1]
       h0
  have b: "created (startSendMessage (Some ''s1'') ''Hello'' 1
              (startSendMessage (Some ''s1'') ''Hello'' 0 ?s0))
           = created ?s0 @ [CreateMessage ''s1'' ''Hello'' User 0 None]"
    by blast
  from h1 a h0 b c0 show ?thesis by simp
qed

text \<open>
  C9 (as stated) fails for a call made with no session selected: the check
  for a session comes before the check of the ref, so such a call stores the
  error \<^verbatim>\<open>No session selected\<close> even while an invocation is in flight.
\<close>

theorem sendMessage_no_session_counterexample:
  "inflight (storeRun [CallSendMessage (Some ''s1'') ''Hello'' 0]
              (initialStore [] :: int chat_store)) \<noteq> [] \<and>
   st_error (storeRun [CallSendMessage (Some ''s1'') ''Hello'' 0]
              (initialStore [] :: int chat_store)) = None \<and>
   st_error (storeRun [CallSendMessage (Some ''s1'') ''Hello'' 0,
                       CallSendMessage None ''Again'' 1]
              (initialStore [] :: int chat_store)) = Some ''No session selected''"
  by (simp add: storeRun_def startSendMessage_def initialStore_def Let_def)

end
